theory Spec2Isabelle
  imports Complex_Main "HOL-Library.Log_Nat"
begin

section \<open>Python values used by the bot\<close>

text \<open>
  The strings the program only builds and compares (channel names, messages) are byte
  lists (UTF-8), so the non-ASCII characters of the source are written as their bytes.
  The strings it reads character by character, the date and the time of the
  configuration command, are lists of code points. Python integers are unbounded:
  \<open>int\<close>.

  A \<open>timedelta\<close> is an exact number of microseconds (CPython normalises it to days,
  seconds and microseconds, which determine and are determined by that number), so it is
  an \<open>int\<close> here. \<open>timedelta.total_seconds()\<close> divides the microseconds by \<open>10^6\<close> with
  Python's true division of integers, whose result is the double nearest to the
  quotient, a tie going to the even significand. A float is the real number it stands
  for. The quotient of a \<open>timedelta\<close> by \<open>10^6\<close> is far from the overflow and the
  subnormal range of doubles, which are left out. The later operations on the seconds
  (\<open>// 86400\<close>, \<open>/ 3600\<close> before \<open>round\<close>, the comparisons) are taken exactly.
\<close>

type_synonym timedelta = int

definition py_int_of_float :: "real \<Rightarrow> int" where
  \<comment> \<open>\<open>int(x)\<close> of a float: truncation toward zero.\<close>
  "py_int_of_float x = (if 0 \<le> x then \<lfloor>x\<rfloor> else \<lceil>x\<rceil>)"

definition py_round :: "real \<Rightarrow> int" where
  \<comment> \<open>\<open>round(x)\<close> with one argument: the nearest integer, a tie going to the even one.\<close>
  "py_round x =
     (let f = \<lfloor>x\<rfloor>; d = x - of_int f
      in if d < 1 / 2 then f
         else if 1 / 2 < d then f + 1
         else if even f then f else f + 1)"

definition binade :: "int \<Rightarrow> int \<Rightarrow> int" where
  \<comment> \<open>for positive \<open>a\<close> and \<open>b\<close>, the \<open>e\<close> with \<open>2^e \<le> a / b < 2^(e + 1)\<close>\<close>
  "binade a b =
     (let d = bitlen a - bitlen b
      in if (2::real) powi d \<le> of_int a / of_int b then d else d - 1)"

definition true_divide :: "int \<Rightarrow> int \<Rightarrow> real" where
  \<comment> \<open>\<open>a / b\<close> for integers, \<open>b\<close> positive: the quotient rounded to 53 significant bits\<close>
  "true_divide a b =
     (if a = 0 then 0
      else (let ulp = (2::real) powi (binade \<bar>a\<bar> b - 52)
            in of_int (sgn a) * (of_int (py_round (of_int \<bar>a\<bar> / of_int b / ulp)) * ulp)))"

definition total_seconds :: "timedelta \<Rightarrow> real" where
  "total_seconds delta = true_divide delta 1000000"

definition digit_char :: "nat \<Rightarrow> char" where
  "digit_char n = ''0123456789'' ! n"

fun str_nat :: "nat \<Rightarrow> string" where
  "str_nat n = (if n < 10 then [digit_char n] else str_nat (n div 10) @ [digit_char (n mod 10)])"

declare str_nat.simps [simp del]

definition str_int :: "int \<Rightarrow> string" where
  \<comment> \<open>\<open>str(n)\<close>, which is what \<open>f"{n}"\<close> renders.\<close>
  "str_int n = (if n < 0 then CHR ''-'' # str_nat (nat (- n)) else str_nat (nat n))"

fun join_str :: "string \<Rightarrow> string list \<Rightarrow> string" where
  \<comment> \<open>\<open>sep.join(parts)\<close>\<close>
  "join_str sep [] = []"
| "join_str sep [p] = p"
| "join_str sep (p # q # ps) = p @ sep @ join_str sep (q # ps)"

section \<open>Configuration constants\<close>

definition EVENT_NAME :: string where
  "EVENT_NAME = ''meteor impact''"

definition REMINDER_DAYS :: "int set" where
  "REMINDER_DAYS = {28, 21, 14, 7, 2, 1}"

definition REMINDER_HOURS :: "int set" where
  "REMINDER_HOURS = {24, 12, 6, 3, 1}"

definition METEOR_ICON :: string where
  \<comment> \<open>U+2604 U+FE0F\<close>
  "METEOR_ICON = [CHR 0xE2, CHR 0x98, CHR 0x84, CHR 0xEF, CHR 0xB8, CHR 0x8F]"

definition MIDDLE_DOT :: string where
  \<comment> \<open>U+00B7, the separator written in the source's channel names\<close>
  "MIDDLE_DOT = [CHR 0xC2, CHR 0xB7]"

definition FINISHED_NAME :: string where
  "FINISHED_NAME = METEOR_ICON @ '' '' @ MIDDLE_DOT @ '' Impact imminent!''"

section \<open>Helpers\<close>

definition format_time :: "timedelta \<Rightarrow> string" where
  "format_time delta =
     (let total = py_int_of_float (total_seconds delta);
          total = (if total < 0 then 0 else total);
          days = total div 86400; rem = total mod 86400;
          hours = rem div 3600; rem = rem mod 3600;
          minutes = rem div 60;
          parts = [];
          parts = (if days > 0 then parts @ [str_int days @ ''d''] else parts);
          parts = (if hours > 0 \<or> days > 0 then parts @ [str_int hours @ ''h''] else parts);
          parts = parts @ [str_int minutes @ ''m'']
      in join_str '' '' parts)"






section \<open>Parsing the impact time\<close>

text \<open>
  \<open>int(s)\<close> on a string, as CPython does it. A string with a character outside ASCII
  is first rewritten: the characters below 127 stay, a blank of the Unicode database
  becomes a space, a decimal digit of the database becomes its ASCII digit, and at the
  first other character the string is cut and marked with a question mark. The database
  is not part of the program; it is a parameter. The ASCII string is then read: the blanks
  around it are skipped, one sign is allowed, then decimal digits, where a single
  underscore may stand between two digits. Anything else raises \<open>ValueError\<close>. The limit
  recent CPython versions put on the number of digits (4300, more than a chat message
  holds) is left out.
\<close>

datatype py_error = ValueError | OverflowError

type_synonym unicode = "int list"

definition ord :: "char \<Rightarrow> int" where
  "ord c = of_char c"

definition py_str :: "string \<Rightarrow> unicode" where
  \<comment> \<open>the Python string of an ASCII literal\<close>
  "py_str s = map ord s"

record unicode_db =
  isspace :: "int \<Rightarrow> bool"
  todecimal :: "int \<Rightarrow> int option"

fun transform :: "unicode_db \<Rightarrow> unicode \<Rightarrow> unicode" where
  "transform db [] = []"
| "transform db (ch # cs) =
     (if ch < 127 then ch # transform db cs
      else if isspace db ch then ord CHR '' '' # transform db cs
      else (case todecimal db ch of
              None \<Rightarrow> [ord CHR ''?'']
            | Some decimal \<Rightarrow> (ord CHR ''0'' + decimal) # transform db cs))"

definition to_ascii :: "unicode_db \<Rightarrow> unicode \<Rightarrow> unicode" where
  "to_ascii db s = (if list_all (\<lambda>ch. ch < 128) s then s else transform db s)"

definition is_space :: "int \<Rightarrow> bool" where
  \<comment> \<open>the six ASCII blanks\<close>
  "is_space c = (c \<in> set [0x09, 0x0A, 0x0B, 0x0C, 0x0D, 0x20])"

definition strip :: "unicode \<Rightarrow> unicode" where
  "strip s = rev (dropWhile is_space (rev (dropWhile is_space s)))"

definition is_digit :: "int \<Rightarrow> bool" where
  "is_digit c = (ord CHR ''0'' \<le> c \<and> c \<le> ord CHR ''9'')"

definition digit_val :: "int \<Rightarrow> int" where
  "digit_val c = c - ord CHR ''0''"

fun parse_digits :: "int \<Rightarrow> bool \<Rightarrow> unicode \<Rightarrow> int option" where
  "parse_digits acc prev [] = (if prev then Some acc else None)"
| "parse_digits acc prev (c # cs) =
     (if is_digit c then parse_digits (10 * acc + digit_val c) True cs
      else if c = ord CHR ''_'' \<and> prev \<and> cs \<noteq> [] \<and> is_digit (hd cs)
      then parse_digits acc False cs
      else None)"

definition py_int :: "unicode_db \<Rightarrow> unicode \<Rightarrow> py_error + int" where
  "py_int db s =
     (case strip (to_ascii db s) of
        [] \<Rightarrow> Inl ValueError
      | c # cs \<Rightarrow>
          (if c = ord CHR ''+''
           then (case parse_digits 0 False cs of None \<Rightarrow> Inl ValueError | Some n \<Rightarrow> Inr n)
           else if c = ord CHR ''-''
           then (case parse_digits 0 False cs of None \<Rightarrow> Inl ValueError | Some n \<Rightarrow> Inr (- n))
           else (case parse_digits 0 False (c # cs) of
                   None \<Rightarrow> Inl ValueError
                 | Some n \<Rightarrow> Inr n)))"

fun split_on :: "int \<Rightarrow> unicode \<Rightarrow> unicode list" where
  \<comment> \<open>\<open>s.split(sep)\<close> for a one-character separator\<close>
  "split_on sep [] = [[]]"
| "split_on sep (c # cs) =
     (if c = sep then [] # split_on sep cs
      else (case split_on sep cs of [] \<Rightarrow> [[c]] | f # fs \<Rightarrow> (c # f) # fs))"

text \<open>
  The \<open>datetime\<close> constructor as the program calls it: five integers and
  \<open>tzinfo=timezone.utc\<close>. An argument outside the C \<open>int\<close> range raises
  \<open>OverflowError\<close>; a field outside its calendar range raises \<open>ValueError\<close>.
\<close>

datatype tzinfo = UTC

record datetime =
  dt_year :: int
  dt_month :: int
  dt_day :: int
  dt_hour :: int
  dt_minute :: int
  dt_second :: int
  dt_microsecond :: int
  dt_tzinfo :: "tzinfo option"

definition is_leap :: "int \<Rightarrow> bool" where
  "is_leap y = (y mod 4 = 0 \<and> (y mod 100 \<noteq> 0 \<or> y mod 400 = 0))"

definition days_in_month :: "int \<Rightarrow> int \<Rightarrow> int" where
  "days_in_month y m =
     (if m = 2 \<and> is_leap y then 29
      else [31, 28, 31, 30, 31, 30, 31, 31, 30, 31, 30, 31] ! nat (m - 1))"

definition in_c_int :: "int \<Rightarrow> bool" where
  "in_c_int n = (- 2147483648 \<le> n \<and> n \<le> 2147483647)"

definition py_datetime :: "int \<Rightarrow> int \<Rightarrow> int \<Rightarrow> int \<Rightarrow> int \<Rightarrow> py_error + datetime" where
  "py_datetime y mo d h mi =
     (if \<not> (in_c_int y \<and> in_c_int mo \<and> in_c_int d \<and> in_c_int h \<and> in_c_int mi)
      then Inl OverflowError
      else if y < 1 \<or> 9999 < y then Inl ValueError
      else if mo < 1 \<or> 12 < mo then Inl ValueError
      else if d < 1 \<or> days_in_month y mo < d then Inl ValueError
      else if h < 0 \<or> 23 < h then Inl ValueError
      else if mi < 0 \<or> 59 < mi then Inl ValueError
      else Inr \<lparr>dt_year = y, dt_month = mo, dt_day = d, dt_hour = h, dt_minute = mi,
                dt_second = 0, dt_microsecond = 0, dt_tzinfo = Some UTC\<rparr>)"

definition parse_datetime_utc :: "unicode_db \<Rightarrow> unicode \<Rightarrow> unicode \<Rightarrow> py_error + datetime" where
  "parse_datetime_utc db date_str time_str =
     (case map (py_int db) (split_on (ord CHR ''-'') date_str) of
        [Inr year, Inr month, Inr day] \<Rightarrow>
          (case map (py_int db) (split_on (ord CHR '':'') time_str) of
             [Inr hour, Inr minute] \<Rightarrow> py_datetime year month day hour minute
           | _ \<Rightarrow> Inl ValueError)
      | _ \<Rightarrow> Inl ValueError)"

text \<open>
  Subtracting two UTC datetimes, as CPython does it: the difference of the proleptic
  Gregorian ordinals in days, plus the difference of the times of day.
\<close>

definition days_before_year :: "int \<Rightarrow> int" where
  "days_before_year y = (y - 1) * 365 + (y - 1) div 4 - (y - 1) div 100 + (y - 1) div 400"

definition days_before_month :: "int \<Rightarrow> int \<Rightarrow> int" where
  "days_before_month y m =
     [0, 31, 59, 90, 120, 151, 181, 212, 243, 273, 304, 334] ! nat (m - 1)
       + (if 2 < m \<and> is_leap y then 1 else 0)"

definition toordinal :: "datetime \<Rightarrow> int" where
  "toordinal t = days_before_year (dt_year t) + days_before_month (dt_year t) (dt_month t) + dt_day t"

definition datetime_sub :: "datetime \<Rightarrow> datetime \<Rightarrow> timedelta" where
  "datetime_sub a b =
     ((toordinal a - toordinal b) * 86400
        + ((dt_hour a * 3600 + dt_minute a * 60 + dt_second a)
            - (dt_hour b * 3600 + dt_minute b * 60 + dt_second b))) * 1000000
       + (dt_microsecond a - dt_microsecond b)"

section \<open>Bot state and the chat platform\<close>

text \<open>
  The module's globals are one record. The platform is the map from the identifiers of
  the channels the bot can resolve to their names. Each call that the source wraps in
  \<open>try\<close>/\<open>except\<close> may fail; whether it does is the platform's choice and an input of
  the model. A rename that succeeds sets the channel's name, one that fails leaves it.
  Every call made is recorded with its outcome, in program order. The \<open>print\<close> calls are
  left out.
\<close>

type_synonym channel_id = nat

record bot_state =
  COUNTDOWN_CHANNEL_ID :: "channel_id option"
  TARGET_TIME :: "datetime option"
  sent_day_reminders :: "int set"
  sent_hour_reminders :: "int set"

definition initial_state :: bot_state where
  "initial_state = \<lparr>COUNTDOWN_CHANNEL_ID = None, TARGET_TIME = None,
                      sent_day_reminders = {}, sent_hour_reminders = {}\<rparr>"

type_synonym guild = "channel_id \<rightharpoonup> string"

datatype reminder = DayReminder int | HourReminder int

datatype action =
    RenameChannel channel_id string bool
  | SendMessage channel_id reminder bool
  | DeleteChannel channel_id bool
  | CreateChannel string "channel_id option"

definition reminder_text :: "reminder \<Rightarrow> string" where
  \<comment> \<open>the text of the message that is sent\<close>
  "reminder_text r =
     (case r of
        DayReminder days_remaining \<Rightarrow>
          ''@everyone **'' @ str_int days_remaining @ '' day''
            @ (if days_remaining = 1 then [] else ''s'')
            @ ''** remain until **'' @ EVENT_NAME @ ''** '' @ METEOR_ICON
      | HourReminder hours_remaining \<Rightarrow>
          ''@everyone **'' @ str_int hours_remaining @ '' hour''
            @ (if hours_remaining = 1 then [] else ''s'')
            @ ''** remain until **'' @ EVENT_NAME @ ''** '' @ METEOR_ICON)"

record tick_env =
  rename_ok :: bool
  day_send_ok :: bool
  hour_send_ok :: bool

section \<open>The update loop\<close>

definition edit_name :: "guild \<Rightarrow> channel_id \<Rightarrow> string \<Rightarrow> string \<Rightarrow> bool \<Rightarrow> guild \<times> action list" where
  \<comment> \<open>\<open>if channel.name != new_name: try: await channel.edit(name=new_name)\<close>\<close>
  "edit_name g cid current new_name ok =
     (if current \<noteq> new_name
      then (if ok then g(cid \<mapsto> new_name) else g, [RenameChannel cid new_name ok])
      else (g, []))"

definition day_reminders ::
    "int set \<Rightarrow> channel_id \<Rightarrow> real \<Rightarrow> bool \<Rightarrow> bot_state \<Rightarrow> bot_state \<times> action list" where
  "day_reminders RD cid secs ok s =
     (let days_remaining = \<lfloor>secs / 86400\<rfloor>
      in if days_remaining \<in> RD \<and> days_remaining \<notin> sent_day_reminders s
         then (s\<lparr>sent_day_reminders := insert days_remaining (sent_day_reminders s)\<rparr>,
               [SendMessage cid (DayReminder days_remaining) ok])
         else (s, []))"

definition hour_reminders ::
    "int set \<Rightarrow> channel_id \<Rightarrow> real \<Rightarrow> bool \<Rightarrow> bot_state \<Rightarrow> bot_state \<times> action list" where
  "hour_reminders RH cid secs ok s =
     (if secs < 2 * 86400
      then (let hours_remaining = py_round (secs / 3600)
            in if hours_remaining \<in> RH \<and> hours_remaining \<notin> sent_hour_reminders s
               then (s\<lparr>sent_hour_reminders := insert hours_remaining (sent_hour_reminders s)\<rparr>,
                     [SendMessage cid (HourReminder hours_remaining) ok])
               else (s, []))
      else (s, []))"

definition countdown_name :: "timedelta \<Rightarrow> string" where
  "countdown_name remaining =
     METEOR_ICON @ '' '' @ MIDDLE_DOT @ '' '' @ format_time remaining @ '' till impact''"

text \<open>
  One tick, with the two reminder sets as parameters; \<open>update_loop\<close> is the tick with
  the sets the source configures.
\<close>

definition update_loop_cfg ::
    "int set \<Rightarrow> int set \<Rightarrow> bot_state \<Rightarrow> guild \<Rightarrow> datetime \<Rightarrow> tick_env
      \<Rightarrow> bot_state \<times> guild \<times> action list" where
  "update_loop_cfg RD RH s g now env =
     (case TARGET_TIME s of
        None \<Rightarrow> (s, g, [])
      | Some target \<Rightarrow>
          (case COUNTDOWN_CHANNEL_ID s of
             None \<Rightarrow> (s, g, [])
           | Some cid \<Rightarrow>
               (let remaining = datetime_sub target now;
                    secs = total_seconds remaining
                in case g cid of
                     None \<Rightarrow> (s, g, [])
                   | Some name \<Rightarrow>
                       if secs \<le> 0
                       then (let (g1, a1) = edit_name g cid name FINISHED_NAME (rename_ok env)
                             in (s, g1, a1))
                       else (let (g1, a1) = edit_name g cid name (countdown_name remaining)
                                              (rename_ok env);
                                 (s2, a2) = day_reminders RD cid secs (day_send_ok env) s;
                                 (s3, a3) = hour_reminders RH cid secs (hour_send_ok env) s2
                             in (s3, g1, a1 @ a2 @ a3)))))"

definition update_loop ::
    "bot_state \<Rightarrow> guild \<Rightarrow> datetime \<Rightarrow> tick_env \<Rightarrow> bot_state \<times> guild \<times> action list" where
  "update_loop = update_loop_cfg REMINDER_DAYS REMINDER_HOURS"

section \<open>Commands\<close>

text \<open>
  A command's outcome stands for what it reports: \<open>InvalidFormat\<close> is the reply with the
  usage hint, \<open>Created\<close> and \<open>Deleted\<close> the two success replies, \<open>NoActiveEvent\<close> the
  reply that there is nothing to delete. \<open>MissingPermissions\<close> is raised by the
  permission check before the body runs, \<open>CreateFailed\<close> is the exception of
  \<open>create_text_channel\<close>, which the source does not catch. The replies are the last
  statement of every path, so none of the state depends on their delivery.

  The environment of a command is what the program does not decide: whether the caller
  may manage channels, the outcome of the channel calls, and the Unicode database of the
  interpreter.
\<close>

datatype outcome =
    MissingPermissions
  | InvalidFormat
  | CreateFailed
  | Created channel_id datetime
  | NoActiveEvent
  | Deleted "string option"

record cmd_env =
  manage_channels :: bool
  delete_ok :: bool
  create_result :: "channel_id option"
  ucd :: unicode_db

definition delete_channel :: "guild \<Rightarrow> channel_id \<Rightarrow> bool \<Rightarrow> guild \<times> action list" where
  \<comment> \<open>\<open>try: await channel.delete(...)\<close>\<close>
  "delete_channel g cid ok = (if ok then g(cid := None) else g, [DeleteChannel cid ok])"

definition create_meteor ::
    "cmd_env \<Rightarrow> unicode \<Rightarrow> unicode \<Rightarrow> string option \<Rightarrow> bot_state \<Rightarrow> guild
      \<Rightarrow> outcome \<times> bot_state \<times> guild \<times> action list" where
  "create_meteor env date time name_arg s g =
     (if \<not> manage_channels env then (MissingPermissions, s, g, [])
      else
        (let name = (case name_arg of None \<Rightarrow> ''meteor-impact'' | Some n \<Rightarrow> n)
         in case parse_datetime_utc (ucd env) date time of
              Inl e \<Rightarrow> (InvalidFormat, s, g, [])
            | Inr impact_dt \<Rightarrow>
                (let (g1, a1) =
                       (case COUNTDOWN_CHANNEL_ID s of
                          None \<Rightarrow> (g, [])
                        | Some old \<Rightarrow>
                            (case g old of
                               None \<Rightarrow> (g, [])
                             | Some old_name \<Rightarrow> delete_channel g old (delete_ok env)))
                 in case create_result env of
                      None \<Rightarrow> (CreateFailed, s, g1, a1 @ [CreateChannel name None])
                    | Some new_id \<Rightarrow>
                        (Created new_id impact_dt,
                         s\<lparr>COUNTDOWN_CHANNEL_ID := Some new_id, TARGET_TIME := Some impact_dt,
                           sent_day_reminders := {}, sent_hour_reminders := {}\<rparr>,
                         g1(new_id \<mapsto> name),
                         a1 @ [CreateChannel name (Some new_id)]))))"

definition delete_meteor ::
    "cmd_env \<Rightarrow> bot_state \<Rightarrow> guild \<Rightarrow> outcome \<times> bot_state \<times> guild \<times> action list" where
  "delete_meteor env s g =
     (if \<not> manage_channels env then (MissingPermissions, s, g, [])
      else if COUNTDOWN_CHANNEL_ID s = None \<and> TARGET_TIME s = None
      then (NoActiveEvent, s, g, [])
      else
        (let (deleted_channel_name, g1, a1) =
               (case COUNTDOWN_CHANNEL_ID s of
                  None \<Rightarrow> (None, g, [])
                | Some cid \<Rightarrow>
                    (case g cid of
                       None \<Rightarrow> (None, g, [])
                     | Some nm \<Rightarrow>
                         (let (g', a) = delete_channel g cid (delete_ok env)
                          in (Some nm, g', a))))
         in (Deleted deleted_channel_name,
             s\<lparr>COUNTDOWN_CHANNEL_ID := None, TARGET_TIME := None,
               sent_day_reminders := {}, sent_hour_reminders := {}\<rparr>,
             g1, a1)))"

section \<open>Runs\<close>

text \<open>
  What can happen to the bot between start and stop: a tick at some time, one of the two
  commands, or a change of the guild's channels made by somebody else.
\<close>

datatype event =
    Tick datetime tick_env
  | CreateMeteor cmd_env unicode unicode "string option"
  | DeleteMeteor cmd_env
  | GuildChanged guild

fun step :: "event \<Rightarrow> bot_state \<times> guild \<Rightarrow> bot_state \<times> guild \<times> action list" where
  "step (Tick now env) (s, g) = update_loop s g now env"
| "step (CreateMeteor env date time name_arg) (s, g) = snd (create_meteor env date time name_arg s g)"
| "step (DeleteMeteor env) (s, g) = snd (delete_meteor env s g)"
| "step (GuildChanged g') (s, g) = (s, g', [])"

fun run :: "event list \<Rightarrow> bot_state \<times> guild \<Rightarrow> bot_state \<times> guild \<times> action list" where
  "run [] (s, g) = (s, g, [])"
| "run (e # es) (s, g) =
     (let (s1, g1, a1) = step e (s, g);
          (s2, g2, a2) = run es (s1, g1)
      in (s2, g2, a1 @ a2))"

fun is_tick :: "event \<Rightarrow> bool" where
  "is_tick (Tick now env) = True"
| "is_tick (GuildChanged g) = True"
| "is_tick e = False"

fun is_send :: "action \<Rightarrow> bool" where
  "is_send (SendMessage cid r ok) = True"
| "is_send a = False"

fun is_rename :: "action \<Rightarrow> bool" where
  "is_rename (RenameChannel cid n ok) = True"
| "is_rename a = False"

definition state_of :: "bot_state \<times> guild \<times> action list \<Rightarrow> bot_state" where
  "state_of r = fst r"

definition guild_of :: "bot_state \<times> guild \<times> action list \<Rightarrow> guild" where
  "guild_of r = fst (snd r)"

definition actions_of :: "bot_state \<times> guild \<times> action list \<Rightarrow> action list" where
  "actions_of r = snd (snd r)"

definition remaining_seconds :: "datetime \<Rightarrow> datetime \<Rightarrow> real" where
  \<comment> \<open>\<open>(TARGET_TIME - now).total_seconds()\<close>\<close>
  "remaining_seconds target now = total_seconds (datetime_sub target now)"

definition desired_name :: "datetime \<Rightarrow> datetime \<Rightarrow> string" where
  \<comment> \<open>the name a tick at \<open>now\<close> wants the channel to have\<close>
  "desired_name target now =
     (if remaining_seconds target now \<le> 0 then FINISHED_NAME
      else countdown_name (datetime_sub target now))"

fun expired_tick :: "datetime \<Rightarrow> event \<Rightarrow> bool" where
  "expired_tick target (Tick now env) = (remaining_seconds target now \<le> 0)"
| "expired_tick target (GuildChanged g) = True"
| "expired_tick target e = False"

fun observes_day :: "datetime \<Rightarrow> int \<Rightarrow> event \<Rightarrow> bool" where
  \<comment> \<open>a tick whose remaining time has \<open>n\<close> whole days\<close>
  "observes_day target n (Tick now env) = (\<lfloor>remaining_seconds target now / 86400\<rfloor> = n)"
| "observes_day target n e = False"

fun marked :: "reminder \<Rightarrow> bot_state \<Rightarrow> bool" where
  \<comment> \<open>the reminder's threshold is in its fired-set\<close>
  "marked (DayReminder d) s = (d \<in> sent_day_reminders s)"
| "marked (HourReminder h) s = (h \<in> sent_hour_reminders s)"

text \<open>
  Between events the fired-sets are empty whenever no event is configured, and the
  channel and the target time are set or unset together.
\<close>

definition unconfigured_is_clean :: "bot_state \<Rightarrow> bool" where
  "unconfigured_is_clean s \<longleftrightarrow>
     (COUNTDOWN_CHANNEL_ID s = None \<longleftrightarrow> TARGET_TIME s = None)
     \<and> (COUNTDOWN_CHANNEL_ID s = None \<longrightarrow> sent_day_reminders s = {} \<and> sent_hour_reminders s = {})"

section \<open>A configured event, for the examples\<close>

definition utc :: "int \<Rightarrow> int \<Rightarrow> int \<Rightarrow> int \<Rightarrow> int \<Rightarrow> int \<Rightarrow> int \<Rightarrow> datetime" where
  "utc y mo d h mi sec us =
     \<lparr>dt_year = y, dt_month = mo, dt_day = d, dt_hour = h, dt_minute = mi,
      dt_second = sec, dt_microsecond = us, dt_tzinfo = Some UTC\<rparr>"

definition impact_time :: datetime where
  "impact_time = utc 2026 1 20 16 47 0 0"

definition configured :: bot_state where
  "configured = \<lparr>COUNTDOWN_CHANNEL_ID = Some 1, TARGET_TIME = Some impact_time,
                  sent_day_reminders = {}, sent_hour_reminders = {}\<rparr>"

definition one_channel :: guild where
  "one_channel = [1 \<mapsto> ''meteor-impact'']"

definition all_ok :: tick_env where
  "all_ok = \<lparr>rename_ok = True, day_send_ok = True, hour_send_ok = True\<rparr>"

definition all_fail :: tick_env where
  "all_fail = \<lparr>rename_ok = False, day_send_ok = False, hour_send_ok = False\<rparr>"

text \<open>
  A few entries of the Unicode database: the no-break and the ideographic space, the
  Arabic-Indic and the fullwidth digits.
\<close>

definition some_unicode :: unicode_db where
  "some_unicode =
     \<lparr>isspace = (\<lambda>ch. ch \<in> set [0xA0, 0x3000]),
      todecimal = (\<lambda>ch. if 0x660 \<le> ch \<and> ch \<le> 0x669 then Some (ch - 0x660)
                         else if 0xFF10 \<le> ch \<and> ch \<le> 0xFF19 then Some (ch - 0xFF10)
                         else None)\<rparr>"

definition admin :: cmd_env where
  "admin = \<lparr>manage_channels = True, delete_ok = True, create_result = Some 2,
             ucd = some_unicode\<rparr>"

section \<open>Rounding\<close>

lemma py_round_cases:
  fixes x :: real
  shows "(py_round x = \<lfloor>x\<rfloor> \<and> x - of_int \<lfloor>x\<rfloor> \<le> 1 / 2)
       \<or> (py_round x = \<lfloor>x\<rfloor> + 1 \<and> 1 / 2 \<le> x - of_int \<lfloor>x\<rfloor>)"
  by (auto simp: py_round_def Let_def)

lemma py_round_half:
  fixes x :: real
  shows "\<bar>x - of_int (py_round x)\<bar> \<le> 1 / 2"
proof -
  have lo: "of_int \<lfloor>x\<rfloor> \<le> x" and hi: "x < of_int \<lfloor>x\<rfloor> + 1"
    by linarith+
  from py_round_cases[of x] lo hi show ?thesis by auto
qed












section \<open>The duration formatter\<close>








section \<open>The steps of a tick\<close>

lemma day_reminders_actions:
  "x \<in> set (snd (day_reminders RD cid secs ok s)) \<longleftrightarrow>
     x = SendMessage cid (DayReminder \<lfloor>secs / 86400\<rfloor>) ok
       \<and> \<lfloor>secs / 86400\<rfloor> \<in> RD \<and> \<lfloor>secs / 86400\<rfloor> \<notin> sent_day_reminders s"
  by (auto simp: day_reminders_def Let_def)

lemma day_reminders_state:
  "sent_day_reminders (fst (day_reminders RD cid secs ok s)) =
     (if \<lfloor>secs / 86400\<rfloor> \<in> RD then insert \<lfloor>secs / 86400\<rfloor> (sent_day_reminders s)
      else sent_day_reminders s)"
  "sent_hour_reminders (fst (day_reminders RD cid secs ok s)) = sent_hour_reminders s"
  "TARGET_TIME (fst (day_reminders RD cid secs ok s)) = TARGET_TIME s"
  "COUNTDOWN_CHANNEL_ID (fst (day_reminders RD cid secs ok s)) = COUNTDOWN_CHANNEL_ID s"
  by (auto simp: day_reminders_def Let_def)

lemma hour_reminders_actions:
  "x \<in> set (snd (hour_reminders RH cid secs ok s)) \<longleftrightarrow>
     x = SendMessage cid (HourReminder (py_round (secs / 3600))) ok
       \<and> secs < 172800 \<and> py_round (secs / 3600) \<in> RH
       \<and> py_round (secs / 3600) \<notin> sent_hour_reminders s"
  by (auto simp: hour_reminders_def Let_def)

lemma hour_reminders_state:
  "sent_hour_reminders (fst (hour_reminders RH cid secs ok s)) =
     (if secs < 172800 \<and> py_round (secs / 3600) \<in> RH
      then insert (py_round (secs / 3600)) (sent_hour_reminders s)
      else sent_hour_reminders s)"
  "sent_day_reminders (fst (hour_reminders RH cid secs ok s)) = sent_day_reminders s"
  "TARGET_TIME (fst (hour_reminders RH cid secs ok s)) = TARGET_TIME s"
  "COUNTDOWN_CHANNEL_ID (fst (hour_reminders RH cid secs ok s)) = COUNTDOWN_CHANNEL_ID s"
  by (auto simp: hour_reminders_def Let_def)

lemma edit_name_actions:
  "x \<in> set (snd (edit_name g cid cur new ok)) \<longleftrightarrow> x = RenameChannel cid new ok \<and> cur \<noteq> new"
  by (auto simp: edit_name_def)

lemma edit_name_guild:
  "fst (edit_name g cid cur new ok) = (if cur \<noteq> new \<and> ok then g(cid \<mapsto> new) else g)"
  by (simp add: edit_name_def)

lemma edit_name_length: "length (snd (edit_name g cid cur new ok)) \<le> 1"
  by (simp add: edit_name_def)

section \<open>The four ways through a tick\<close>

lemma update_loop_cfg_idle:
  "TARGET_TIME s = None \<or> COUNTDOWN_CHANNEL_ID s = None
    \<Longrightarrow> update_loop_cfg RD RH s g now env = (s, g, [])"
  by (auto simp: update_loop_cfg_def split: option.splits)

lemma update_loop_cfg_lookup_failed:
  "COUNTDOWN_CHANNEL_ID s = Some cid \<Longrightarrow> g cid = None
    \<Longrightarrow> update_loop_cfg RD RH s g now env = (s, g, [])"
  by (auto simp: update_loop_cfg_def split: option.splits)

lemma update_loop_cfg_expired:
  assumes "TARGET_TIME s = Some target" "COUNTDOWN_CHANNEL_ID s = Some cid" "g cid = Some name"
    and "remaining_seconds target now \<le> 0"
  shows "update_loop_cfg RD RH s g now env =
           (s, fst (edit_name g cid name FINISHED_NAME (rename_ok env)),
            snd (edit_name g cid name FINISHED_NAME (rename_ok env)))"
  using assms by (simp add: update_loop_cfg_def remaining_seconds_def split_beta)

lemma update_loop_cfg_active:
  assumes "TARGET_TIME s = Some target" "COUNTDOWN_CHANNEL_ID s = Some cid" "g cid = Some name"
    and "0 < remaining_seconds target now"
  shows "update_loop_cfg RD RH s g now env =
           (fst (hour_reminders RH cid (remaining_seconds target now) (hour_send_ok env)
                  (fst (day_reminders RD cid (remaining_seconds target now) (day_send_ok env) s))),
            fst (edit_name g cid name (countdown_name (datetime_sub target now)) (rename_ok env)),
            snd (edit_name g cid name (countdown_name (datetime_sub target now)) (rename_ok env))
            @ snd (day_reminders RD cid (remaining_seconds target now) (day_send_ok env) s)
            @ snd (hour_reminders RH cid (remaining_seconds target now) (hour_send_ok env)
                  (fst (day_reminders RD cid (remaining_seconds target now) (day_send_ok env) s))))"
  using assms by (simp add: update_loop_cfg_def remaining_seconds_def split_beta Let_def)

lemma tick_cases [case_names idle lookup_failed expired active]:
  obtains
    "TARGET_TIME s = None \<or> COUNTDOWN_CHANNEL_ID s = None"
  | target cid where "TARGET_TIME s = Some target" "COUNTDOWN_CHANNEL_ID s = Some cid" "g cid = None"
  | target cid name where "TARGET_TIME s = Some target" "COUNTDOWN_CHANNEL_ID s = Some cid"
      "g cid = Some name" "remaining_seconds target now \<le> 0"
  | target cid name where "TARGET_TIME s = Some target" "COUNTDOWN_CHANNEL_ID s = Some cid"
      "g cid = Some name" "0 < remaining_seconds target now"
proof (cases "TARGET_TIME s")
  case None
  then show ?thesis using that(1) by simp
next
  case (Some target)
  note tgt = this
  show ?thesis
  proof (cases "COUNTDOWN_CHANNEL_ID s")
    case None
    then show ?thesis using that(1) by simp
  next
    case (Some cid)
    show ?thesis
    proof (cases "g cid")
      case None
      then show ?thesis using that(2) tgt Some by simp
    next
      case (Some name)
      then show ?thesis
        using that(3)[OF tgt \<open>COUNTDOWN_CHANNEL_ID s = Some cid\<close> Some]
          that(4)[OF tgt \<open>COUNTDOWN_CHANNEL_ID s = Some cid\<close> Some]
        by (cases "remaining_seconds target now \<le> 0") auto
    qed
  qed
qed

text \<open>A tick never touches the target time or the channel, and only adds markers.\<close>

lemma tick_keeps_config:
  "TARGET_TIME (state_of (update_loop_cfg RD RH s g now env)) = TARGET_TIME s"
  "COUNTDOWN_CHANNEL_ID (state_of (update_loop_cfg RD RH s g now env)) = COUNTDOWN_CHANNEL_ID s"
  by (cases rule: tick_cases[where s=s and g=g and now=now];
      simp add: state_of_def update_loop_cfg_idle update_loop_cfg_lookup_failed
        update_loop_cfg_expired update_loop_cfg_active hour_reminders_state day_reminders_state)+

lemma tick_markers_grow:
  "sent_day_reminders s \<subseteq> sent_day_reminders (state_of (update_loop_cfg RD RH s g now env))"
  "sent_hour_reminders s \<subseteq> sent_hour_reminders (state_of (update_loop_cfg RD RH s g now env))"
  by (cases rule: tick_cases[where s=s and g=g and now=now];
      auto simp: state_of_def update_loop_cfg_idle update_loop_cfg_lookup_failed
        update_loop_cfg_expired update_loop_cfg_active hour_reminders_state day_reminders_state)+

lemma tick_day_send:
  assumes "SendMessage c (DayReminder d) ok \<in> set (actions_of (update_loop_cfg RD RH s g now env))"
  shows "d \<in> RD" "d \<notin> sent_day_reminders s"
    "d \<in> sent_day_reminders (state_of (update_loop_cfg RD RH s g now env))"
    "COUNTDOWN_CHANNEL_ID s = Some c" "ok = day_send_ok env"
    "\<exists>target. TARGET_TIME s = Some target \<and> 0 < remaining_seconds target now
        \<and> \<lfloor>remaining_seconds target now / 86400\<rfloor> = d"
  using assms
  by (cases rule: tick_cases[where s=s and g=g and now=now];
      auto simp: state_of_def actions_of_def update_loop_cfg_idle update_loop_cfg_lookup_failed
        update_loop_cfg_expired update_loop_cfg_active hour_reminders_state day_reminders_state
        hour_reminders_actions day_reminders_actions edit_name_actions)+

lemma tick_hour_send:
  assumes "SendMessage c (HourReminder h) ok \<in> set (actions_of (update_loop_cfg RD RH s g now env))"
  shows "h \<in> RH" "h \<notin> sent_hour_reminders s"
    "h \<in> sent_hour_reminders (state_of (update_loop_cfg RD RH s g now env))"
    "COUNTDOWN_CHANNEL_ID s = Some c" "ok = hour_send_ok env"
    "\<exists>target. TARGET_TIME s = Some target \<and> 0 < remaining_seconds target now
        \<and> remaining_seconds target now < 172800
        \<and> py_round (remaining_seconds target now / 3600) = h"
  using assms
  by (cases rule: tick_cases[where s=s and g=g and now=now];
      auto simp: state_of_def actions_of_def update_loop_cfg_idle update_loop_cfg_lookup_failed
        update_loop_cfg_expired update_loop_cfg_active hour_reminders_state day_reminders_state
        hour_reminders_actions day_reminders_actions edit_name_actions)+


section \<open>Runs of ticks\<close>

lemma proj_simps [simp]:
  "state_of (s, g, a) = s" "guild_of (s, g, a) = g" "actions_of (s, g, a) = a"
  by (simp_all add: state_of_def guild_of_def actions_of_def)

lemma run_Cons:
  "state_of (run (e # es) (s, g)) = state_of (run es (state_of (step e (s, g)), guild_of (step e (s, g))))"
  "guild_of (run (e # es) (s, g)) = guild_of (run es (state_of (step e (s, g)), guild_of (step e (s, g))))"
  "actions_of (run (e # es) (s, g)) =
     actions_of (step e (s, g)) @ actions_of (run es (state_of (step e (s, g)), guild_of (step e (s, g))))"
  by (simp_all add: state_of_def guild_of_def actions_of_def split_beta)

declare run.simps(2) [simp del]

lemma step_GuildChanged:
  "state_of (step (GuildChanged g') (s, g)) = s"
  "guild_of (step (GuildChanged g') (s, g)) = g'"
  "actions_of (step (GuildChanged g') (s, g)) = []"
  by (simp_all add: state_of_def guild_of_def actions_of_def)

lemma ticks_keep_config:
  "list_all is_tick es \<Longrightarrow> TARGET_TIME (state_of (run es (s, g))) = TARGET_TIME s
     \<and> COUNTDOWN_CHANNEL_ID (state_of (run es (s, g))) = COUNTDOWN_CHANNEL_ID s"
proof (induction es arbitrary: s g)
  case Nil
  show ?case by (simp add: state_of_def actions_of_def)
next
  case (Cons e es)
  then have rest: "list_all is_tick es" by simp
  from Cons.prems show ?case
  proof (cases e)
    case (Tick now env)
    then show ?thesis
      using Cons.IH[OF rest] by (simp add: run_Cons update_loop_def tick_keeps_config)
  next
    case (GuildChanged g')
    then show ?thesis
      using Cons.IH[OF rest] by (simp add: run_Cons step_GuildChanged)
  qed simp_all
qed

lemma marked_after_tick:
  "marked r s \<Longrightarrow> marked r (state_of (update_loop_cfg RD RH s g now env))"
  using tick_markers_grow[of s RD RH g now env] by (cases r) auto

lemma tick_send_unmarked:
  assumes "SendMessage c r ok \<in> set (actions_of (update_loop_cfg RD RH s g now env))"
  shows "\<not> marked r s" "marked r (state_of (update_loop_cfg RD RH s g now env))"
  using assms tick_day_send(2,3)[of c _ ok RD RH s g now env]
    tick_hour_send(2,3)[of c _ ok RD RH s g now env]
  by (cases r; simp)+

lemma ticks_keep_marked:
  "list_all is_tick es \<Longrightarrow> marked r s \<Longrightarrow> marked r (state_of (run es (s, g)))"
proof (induction es arbitrary: s g)
  case Nil
  then show ?case by (simp add: state_of_def)
next
  case (Cons e es)
  then have rest: "list_all is_tick es" by simp
  from Cons.prems show ?case
  proof (cases e)
    case (Tick now env)
    then show ?thesis
      using Cons.IH[OF rest] Cons.prems(2)
      by (simp add: run_Cons update_loop_def marked_after_tick)
  next
    case (GuildChanged g')
    then show ?thesis
      using Cons.IH[OF rest] Cons.prems(2) by (simp add: run_Cons step_GuildChanged)
  qed simp_all
qed

lemma ticks_never_resend:
  "list_all is_tick es \<Longrightarrow> marked r s
    \<Longrightarrow> SendMessage c r ok \<notin> set (actions_of (run es (s, g)))"
proof (induction es arbitrary: s g)
  case Nil
  show ?case by (simp add: state_of_def actions_of_def)
next
  case (Cons e es)
  then have rest: "list_all is_tick es" by simp
  from Cons.prems show ?case
  proof (cases e)
    case (Tick now env)
    have "SendMessage c r ok \<notin> set (actions_of (update_loop s g now env))"
      using tick_send_unmarked(1)[of c r ok REMINDER_DAYS REMINDER_HOURS s g now env] Cons.prems(2)
      by (auto simp: update_loop_def)
    moreover have "marked r (state_of (update_loop s g now env))"
      using Cons.prems(2) by (simp add: update_loop_def marked_after_tick)
    ultimately show ?thesis
      using Tick Cons.IH[OF rest] by (simp add: run_Cons)
  next
    case (GuildChanged g')
    then show ?thesis
      using Cons.IH[OF rest] Cons.prems(2)
      by (simp add: run_Cons step_GuildChanged)
  qed simp_all
qed

lemma tick_state_ignores_send_outcome:
  "state_of (update_loop_cfg RD RH s g now (env\<lparr>day_send_ok := b1, hour_send_ok := b2\<rparr>))
     = state_of (update_loop_cfg RD RH s g now env)"
  by (simp add: update_loop_cfg_def state_of_def day_reminders_def hour_reminders_def
      edit_name_def Let_def split_beta split: option.splits)

lemma active_tick_actions:
  assumes "TARGET_TIME s = Some target" "COUNTDOWN_CHANNEL_ID s = Some cid" "g cid = Some name"
    and "0 < remaining_seconds target now"
  shows "x \<in> set (actions_of (update_loop_cfg RD RH s g now env)) \<longleftrightarrow>
     (x = RenameChannel cid (countdown_name (datetime_sub target now)) (rename_ok env)
        \<and> name \<noteq> countdown_name (datetime_sub target now))
     \<or> (x = SendMessage cid (DayReminder \<lfloor>remaining_seconds target now / 86400\<rfloor>) (day_send_ok env)
        \<and> \<lfloor>remaining_seconds target now / 86400\<rfloor> \<in> RD
        \<and> \<lfloor>remaining_seconds target now / 86400\<rfloor> \<notin> sent_day_reminders s)
     \<or> (x = SendMessage cid (HourReminder (py_round (remaining_seconds target now / 3600))) (hour_send_ok env)
        \<and> remaining_seconds target now < 172800
        \<and> py_round (remaining_seconds target now / 3600) \<in> RH
        \<and> py_round (remaining_seconds target now / 3600) \<notin> sent_hour_reminders s)"
  unfolding update_loop_cfg_active[where g=g and cid=cid and s=s, OF assms] actions_of_def
  by (auto simp: edit_name_actions day_reminders_actions hour_reminders_actions
      day_reminders_state)

text \<open>
  C2. A tick that fires a day or hour reminder has put the threshold into its fired-set,
  whatever the outcome of the send; the state after the tick is the same when the sends
  fail; and no later tick of the same configuration fires that reminder again.
\<close>

theorem marker_set_before_send:
  assumes "SendMessage c r ok \<in> set (actions_of (update_loop s g now env))"
    and "list_all is_tick es"
  shows "\<not> marked r s \<and> marked r (state_of (update_loop s g now env))
     \<and> state_of (update_loop s g now (env\<lparr>day_send_ok := False, hour_send_ok := False\<rparr>))
         = state_of (update_loop s g now env)
     \<and> marked r (state_of (run es (state_of (update_loop s g now env), guild_of (update_loop s g now env))))
     \<and> (\<forall>c' ok'. SendMessage c' r ok' \<notin>
           set (actions_of (run es (state_of (update_loop s g now env), guild_of (update_loop s g now env)))))"
proof -
  have m: "\<not> marked r s" "marked r (state_of (update_loop s g now env))"
    using tick_send_unmarked[of c r ok REMINDER_DAYS REMINDER_HOURS s g now env] assms(1)
    by (simp_all add: update_loop_def)
  show ?thesis
    using m ticks_never_resend[OF assms(2) m(2)] ticks_keep_marked[OF assms(2) m(2)]
    by (simp add: update_loop_def tick_state_ignores_send_outcome)
qed

theorem marker_set_before_send_witness:
  "SendMessage 1 (DayReminder 1) False
      \<in> set (actions_of (update_loop configured one_channel (utc 2026 1 18 16 48 0 0) all_fail))
   \<and> list_all is_tick [Tick (utc 2026 1 18 16 49 0 0) all_ok, Tick (utc 2026 1 18 16 50 0 0) all_ok]
   \<and> 1 \<in> sent_day_reminders (state_of (update_loop configured one_channel (utc 2026 1 18 16 48 0 0) all_fail))
   \<and> (\<forall>c' ok'. SendMessage c' (DayReminder 1) ok' \<notin>
         set (actions_of (run [Tick (utc 2026 1 18 16 49 0 0) all_ok, Tick (utc 2026 1 18 16 50 0 0) all_ok]
               (state_of (update_loop configured one_channel (utc 2026 1 18 16 48 0 0) all_fail),
                guild_of (update_loop configured one_channel (utc 2026 1 18 16 48 0 0) all_fail)))))"
proof -
  have rem: "remaining_seconds impact_time (utc 2026 1 18 16 48 0 0) = 172740"
    by code_simp
  have fired: "SendMessage 1 (DayReminder 1) False
      \<in> set (actions_of (update_loop configured one_channel (utc 2026 1 18 16 48 0 0) all_fail))"
    unfolding update_loop_def
    by (subst active_tick_actions[where target = impact_time and cid = 1 and name = "''meteor-impact''"])
       (simp_all add: rem configured_def one_channel_def all_fail_def REMINDER_DAYS_def)
  have ticks: "list_all is_tick [Tick (utc 2026 1 18 16 49 0 0) all_ok, Tick (utc 2026 1 18 16 50 0 0) all_ok]"
    by simp
  show ?thesis
    using fired ticks marker_set_before_send [OF fired ticks] by simp
qed

text \<open>
  C4. A tick with 48 hours or more remaining fires no hour reminder and leaves the hour
  fired-set alone, whatever the configured hour set is, even one that holds the rounded
  hour count. \<open>update_loop\<close> is the instance with the source's two sets.
\<close>

theorem hours_only_under_two_days:
  assumes "TARGET_TIME s = Some target" and "172800 \<le> remaining_seconds target now"
  shows "sent_hour_reminders (state_of (update_loop_cfg RD RH s g now env)) = sent_hour_reminders s
     \<and> (\<forall>c h ok. SendMessage c (HourReminder h) ok \<notin> set (actions_of (update_loop_cfg RD RH s g now env)))"
proof -
  have no_send: "SendMessage c (HourReminder h) ok \<notin> set (actions_of (update_loop_cfg RD RH s g now env))"
    for c h ok
    using tick_hour_send(6)[of c h ok RD RH s g now env] assms by auto
  have "sent_hour_reminders (state_of (update_loop_cfg RD RH s g now env)) = sent_hour_reminders s"
    using assms
    by (cases rule: tick_cases[where s=s and g=g and now=now];
        simp add: state_of_def update_loop_cfg_idle update_loop_cfg_lookup_failed
          update_loop_cfg_expired update_loop_cfg_active hour_reminders_state day_reminders_state)
  with no_send show ?thesis by simp
qed

theorem hours_only_under_two_days_witness:
  "TARGET_TIME configured = Some impact_time
   \<and> 172800 \<le> remaining_seconds impact_time (utc 2026 1 18 15 47 0 0)
   \<and> py_round (remaining_seconds impact_time (utc 2026 1 18 15 47 0 0) / 3600) \<in> {49}
   \<and> sent_hour_reminders (state_of (update_loop_cfg REMINDER_DAYS {49} configured one_channel
        (utc 2026 1 18 15 47 0 0) all_ok)) = {}
   \<and> (\<forall>c h ok. SendMessage c (HourReminder h) ok \<notin> set (actions_of
        (update_loop_cfg REMINDER_DAYS {49} configured one_channel (utc 2026 1 18 15 47 0 0) all_ok)))"
proof -
  have rem: "remaining_seconds impact_time (utc 2026 1 18 15 47 0 0) = 176400"
    by code_simp
  have t: "TARGET_TIME configured = Some impact_time"
    by (simp add: configured_def)
  have far: "172800 \<le> remaining_seconds impact_time (utc 2026 1 18 15 47 0 0)"
    by (simp add: rem)
  have "py_round (176400 / 3600) = 49"
    by (simp add: py_round_def)
  then show ?thesis
    using t far hours_only_under_two_days [OF t far, of REMINDER_DAYS "{49}" one_channel all_ok]
    by (simp add: rem configured_def)
qed


section \<open>Expired events\<close>

lemma expired_tick_shape:
  assumes "TARGET_TIME s = Some target" and "remaining_seconds target now \<le> 0"
  shows "state_of (update_loop_cfg RD RH s g now env) = s"
    and "\<forall>a\<in>set (actions_of (update_loop_cfg RD RH s g now env)).
           \<exists>cid. COUNTDOWN_CHANNEL_ID s = Some cid \<and> g cid \<noteq> Some FINISHED_NAME
             \<and> a = RenameChannel cid FINISHED_NAME (rename_ok env)"
    and "length (actions_of (update_loop_cfg RD RH s g now env)) \<le> 1"
    and "\<forall>cid. COUNTDOWN_CHANNEL_ID s = Some cid \<longrightarrow> g cid = Some FINISHED_NAME \<longrightarrow>
           update_loop_cfg RD RH s g now env = (s, g, [])"
  using assms
  by (cases rule: tick_cases[where s=s and g=g and now=now];
      auto simp: update_loop_cfg_idle update_loop_cfg_lookup_failed update_loop_cfg_expired
        edit_name_actions edit_name_length edit_name_def)+

text \<open>
  C8. While the remaining time is not positive, ticks leave the bot's state as it is and
  send no reminder: all they ever emit is the rename to the imminent name, at most one per
  tick, and none at all once the channel has that name.
\<close>

theorem expired_never_reminds:
  assumes "TARGET_TIME s = Some target" and "list_all (expired_tick target) es"
  shows "state_of (run es (s, g)) = s
     \<and> (\<forall>a\<in>set (actions_of (run es (s, g))). \<not> is_send a
           \<and> (\<exists>cid ok. COUNTDOWN_CHANNEL_ID s = Some cid \<and> a = RenameChannel cid FINISHED_NAME ok))
     \<and> length (actions_of (run es (s, g))) \<le> length es
     \<and> (\<forall>cid. COUNTDOWN_CHANNEL_ID s = Some cid \<longrightarrow> g cid = Some FINISHED_NAME
           \<longrightarrow> list_all is_tick es \<longrightarrow> (\<forall>e\<in>set es. \<forall>g'. e \<noteq> GuildChanged g')
           \<longrightarrow> actions_of (run es (s, g)) = [])"
  using assms(2)
proof (induction es arbitrary: g)
  case Nil
  show ?case by simp
next
  case (Cons e es)
  then have rest: "list_all (expired_tick target) es" by simp
  note IH = Cons.IH[OF rest]
  show ?case
  proof (cases e)
    case (Tick now env)
    with Cons.prems have exp: "remaining_seconds target now \<le> 0" by simp
    note sh = expired_tick_shape[OF assms(1) exp, where RD=REMINDER_DAYS and RH=REMINDER_HOURS and g=g and env=env]
    have st: "state_of (step e (s, g)) = s"
      using Tick sh(1) by (simp add: update_loop_def)
    have acts: "\<forall>a\<in>set (actions_of (step e (s, g))). \<not> is_send a
           \<and> (\<exists>cid ok. COUNTDOWN_CHANNEL_ID s = Some cid \<and> a = RenameChannel cid FINISHED_NAME ok)"
      using Tick sh(2) by (auto simp: update_loop_def)
    have len: "length (actions_of (step e (s, g))) \<le> 1"
      using Tick sh(3) by (simp add: update_loop_def)
    have quiet: "\<forall>cid. COUNTDOWN_CHANNEL_ID s = Some cid \<longrightarrow> g cid = Some FINISHED_NAME \<longrightarrow>
           step e (s, g) = (s, g, [])"
      using Tick sh(4) by (simp add: update_loop_def)
    show ?thesis
      using st acts len quiet IH[of "guild_of (step e (s, g))"] IH[of g]
      by (auto simp: run_Cons)
  next
    case (GuildChanged g')
    then show ?thesis
      using IH[of g'] by (auto simp: run_Cons step_GuildChanged)
  next
    case (CreateMeteor x1 x2 x3 x4)
    with Cons.prems show ?thesis by simp
  next
    case (DeleteMeteor x)
    with Cons.prems show ?thesis by simp
  qed
qed

theorem expired_never_reminds_witness:
  "TARGET_TIME configured = Some impact_time
   \<and> list_all (expired_tick impact_time)
        [Tick (utc 2026 1 20 16 47 0 0) all_ok, Tick (utc 2026 1 20 16 48 0 0) all_ok]
   \<and> state_of (run [Tick (utc 2026 1 20 16 47 0 0) all_ok, Tick (utc 2026 1 20 16 48 0 0) all_ok]
        (configured, one_channel)) = configured
   \<and> filter is_send (actions_of (run [Tick (utc 2026 1 20 16 47 0 0) all_ok,
          Tick (utc 2026 1 20 16 48 0 0) all_ok] (configured, one_channel))) = []"
proof -
  have t: "TARGET_TIME configured = Some impact_time"
    by (simp add: configured_def)
  have e: "list_all (expired_tick impact_time)
        [Tick (utc 2026 1 20 16 47 0 0) all_ok, Tick (utc 2026 1 20 16 48 0 0) all_ok]"
    by code_simp
  show ?thesis
    using t e expired_never_reminds [OF t e, where g=one_channel]
    by (simp add: filter_empty_conv)
qed

section \<open>Hour thresholds\<close>

lemma py_round_nearest:
  fixes x :: real
  shows "\<bar>x - of_int (py_round x)\<bar> \<le> \<bar>x - of_int k\<bar>"
proof -
  have lo: "of_int \<lfloor>x\<rfloor> \<le> x" and hi: "x < of_int \<lfloor>x\<rfloor> + 1"
    by linarith+
  have k: "(of_int k :: real) \<le> of_int \<lfloor>x\<rfloor> \<or> (of_int \<lfloor>x\<rfloor> + 1 :: real) \<le> of_int k"
  proof (cases "k \<le> \<lfloor>x\<rfloor>")
    case True
    then show ?thesis by simp
  next
    case False
    then have "\<lfloor>x\<rfloor> + 1 \<le> k" by simp
    then have "(of_int (\<lfloor>x\<rfloor> + 1) :: real) \<le> of_int k" by (simp only: of_int_le_iff)
    then show ?thesis by simp
  qed
  from py_round_cases[of x] show ?thesis
  proof
    assume a: "py_round x = \<lfloor>x\<rfloor> \<and> x - of_int \<lfloor>x\<rfloor> \<le> 1 / 2"
    then show ?thesis using lo hi k by auto
  next
    assume a: "py_round x = \<lfloor>x\<rfloor> + 1 \<and> 1 / 2 \<le> x - of_int \<lfloor>x\<rfloor>"
    then show ?thesis using lo hi k by auto
  qed
qed

text \<open>
  C3. On a tick that reaches the reminders, the hour reminder that is sent is the one
  for the remaining seconds divided by 3600 and rounded to a nearest integer, which is
  within half an hour of the remaining time on either side; it is sent exactly when
  under 48 hours remain, that integer is in the hour set and it is not yet marked.
\<close>

theorem hour_threshold_is_rounded:
  assumes "TARGET_TIME s = Some target" and "COUNTDOWN_CHANNEL_ID s = Some cid"
    and "g cid = Some name" and "0 < remaining_seconds target now"
  shows "(SendMessage c (HourReminder h) ok \<in> set (actions_of (update_loop_cfg RD RH s g now env))
          \<longleftrightarrow> c = cid \<and> ok = hour_send_ok env \<and> remaining_seconds target now < 172800
                \<and> h = py_round (remaining_seconds target now / 3600)
                \<and> h \<in> RH \<and> h \<notin> sent_hour_reminders s)
     \<and> \<bar>remaining_seconds target now / 3600
          - of_int (py_round (remaining_seconds target now / 3600))\<bar> \<le> 1 / 2
     \<and> (\<forall>k. \<bar>remaining_seconds target now / 3600
               - of_int (py_round (remaining_seconds target now / 3600))\<bar>
             \<le> \<bar>remaining_seconds target now / 3600 - of_int k\<bar>)"
  using py_round_nearest[of "remaining_seconds target now / 3600"]
    py_round_half[of "remaining_seconds target now / 3600"]
  by (auto simp: active_tick_actions[where g=g and cid=cid and s=s, OF assms])

theorem hour_threshold_is_rounded_witness:
  "remaining_seconds impact_time (utc 2026 1 20 16 16 0 0) = 1860
   \<and> \<lfloor>remaining_seconds impact_time (utc 2026 1 20 16 16 0 0) / 3600\<rfloor> = 0
   \<and> SendMessage 1 (HourReminder 1) True
        \<in> set (actions_of (update_loop configured one_channel (utc 2026 1 20 16 16 0 0) all_ok))
   \<and> remaining_seconds impact_time (utc 2026 1 20 15 18 0 0) = 5340
   \<and> SendMessage 1 (HourReminder 1) True
        \<in> set (actions_of (update_loop configured one_channel (utc 2026 1 20 15 18 0 0) all_ok))"
proof -
  have r1: "remaining_seconds impact_time (utc 2026 1 20 16 16 0 0) = 1860"
    by code_simp
  have r2: "remaining_seconds impact_time (utc 2026 1 20 15 18 0 0) = 5340"
    by code_simp
  have t: "TARGET_TIME configured = Some impact_time"
    and c: "COUNTDOWN_CHANNEL_ID configured = Some 1"
    and n: "one_channel 1 = Some ''meteor-impact''"
    by (simp_all add: configured_def one_channel_def)
  have p1: "0 < remaining_seconds impact_time (utc 2026 1 20 16 16 0 0)"
    and p2: "0 < remaining_seconds impact_time (utc 2026 1 20 15 18 0 0)"
    by (simp_all add: r1 r2)
  have round1: "py_round (1860 / 3600) = 1" and round2: "py_round (5340 / 3600) = 1"
    by (simp_all add: py_round_def)
  show ?thesis
    using
      hour_threshold_is_rounded [where g=one_channel and cid=1 and c=1 and h=1 and ok=True
        and RD=REMINDER_DAYS and RH=REMINDER_HOURS and env=all_ok, OF t c n p1]
      hour_threshold_is_rounded [where g=one_channel and cid=1 and c=1 and h=1 and ok=True
        and RD=REMINDER_DAYS and RH=REMINDER_HOURS and env=all_ok, OF t c n p2]
      round1 round2
    by (simp add: r1 r2 update_loop_def all_ok_def REMINDER_HOURS_def configured_def)
qed


section \<open>Day thresholds\<close>

lemma tick_new_day_marker:
  assumes "d \<in> sent_day_reminders (state_of (update_loop_cfg RD RH s g now env))"
    and "d \<notin> sent_day_reminders s"
  shows "\<exists>target. TARGET_TIME s = Some target \<and> \<lfloor>remaining_seconds target now / 86400\<rfloor> = d"
  using assms
  by (cases rule: tick_cases[where s=s and g=g and now=now];
      auto simp: state_of_def update_loop_cfg_idle update_loop_cfg_lookup_failed
        update_loop_cfg_expired update_loop_cfg_active hour_reminders_state day_reminders_state
        split: if_splits)

lemma ticks_unobserved_day:
  "list_all is_tick es \<Longrightarrow> TARGET_TIME s = Some target
    \<Longrightarrow> list_all (\<lambda>e. \<not> observes_day target n e) es
    \<Longrightarrow> n \<notin> sent_day_reminders s
    \<Longrightarrow> n \<notin> sent_day_reminders (state_of (run es (s, g)))"
proof (induction es arbitrary: s g)
  case Nil
  then show ?case by simp
next
  case (Cons e es)
  then have rest: "list_all is_tick es" "list_all (\<lambda>e. \<not> observes_day target n e) es"
    by simp_all
  from Cons.prems show ?case
  proof (cases e)
    case (Tick now env)
    with Cons.prems have "\<lfloor>remaining_seconds target now / 86400\<rfloor> \<noteq> n" by simp
    then have "n \<notin> sent_day_reminders (state_of (update_loop s g now env))"
      using tick_new_day_marker[of n REMINDER_DAYS REMINDER_HOURS s g now env] Cons.prems(2,4)
      by (auto simp: update_loop_def)
    moreover have "TARGET_TIME (state_of (update_loop s g now env)) = Some target"
      using Cons.prems(2) by (simp add: update_loop_def tick_keeps_config)
    ultimately show ?thesis
      using Tick Cons.IH[OF rest(1) _ rest(2)] by (simp add: run_Cons)
  next
    case (GuildChanged g')
    then show ?thesis
      using Cons.IH[OF rest(1) Cons.prems(2) rest(2) Cons.prems(4)]
      by (simp add: run_Cons step_GuildChanged)
  qed simp_all
qed

lemma whole_days:
  fixes x :: real
  shows "\<lfloor>x / 86400\<rfloor> = n \<longleftrightarrow> of_int n * 86400 \<le> x \<and> x < (of_int n + 1) * 86400"
  by (simp add: floor_eq_iff pos_le_divide_eq pos_divide_less_eq)

text \<open>
  C9. Under one configuration, take a threshold \<open>n\<close> of the configured day set that is
  not marked, and ticks none of which saw \<open>n\<close> whole days remaining. The next tick that
  resolves the channel sends the reminder for \<open>n\<close> days exactly when its remaining time is
  at least \<open>n\<close> days and less than \<open>n + 1\<close> days: the number of whole days is the floor.
\<close>

theorem day_reminder_fires_on_floor:
  assumes "list_all is_tick es" and "TARGET_TIME s0 = Some target"
    and "COUNTDOWN_CHANNEL_ID s0 = Some cid"
    and "n \<in> REMINDER_DAYS" and "n \<notin> sent_day_reminders s0"
    and "list_all (\<lambda>e. \<not> observes_day target n e) es"
    and "guild_of (run es (s0, g0)) cid \<noteq> None"
  shows "SendMessage cid (DayReminder n) (day_send_ok env)
           \<in> set (actions_of (update_loop (state_of (run es (s0, g0))) (guild_of (run es (s0, g0))) now env))
     \<longleftrightarrow> of_int n * 86400 \<le> remaining_seconds target now
           \<and> remaining_seconds target now < (of_int n + 1) * 86400"
proof -
  define s where "s = state_of (run es (s0, g0))"
  define g where "g = guild_of (run es (s0, g0))"
  have t: "TARGET_TIME s = Some target" and c: "COUNTDOWN_CHANNEL_ID s = Some cid"
    using ticks_keep_config[OF assms(1), of s0 g0] assms(2,3) by (simp_all add: s_def)
  have fresh: "n \<notin> sent_day_reminders s"
    unfolding s_def by (rule ticks_unobserved_day[OF assms(1,2,6,5)])
  from assms(7) obtain name where nm: "g cid = Some name"
    by (auto simp: g_def)
  have pos: "0 < n"
    using assms(4) by (auto simp: REMINDER_DAYS_def)
  show ?thesis
  proof (cases "0 < remaining_seconds target now")
    case True
    have w: "\<lfloor>remaining_seconds target now / 86400\<rfloor> = n \<longleftrightarrow>
        of_int n * 86400 \<le> remaining_seconds target now
          \<and> remaining_seconds target now < (of_int n + 1) * 86400"
      by (rule whole_days)
    have "SendMessage cid (DayReminder n) (day_send_ok env)
           \<in> set (actions_of (update_loop_cfg REMINDER_DAYS REMINDER_HOURS s g now env))
        \<longleftrightarrow> \<lfloor>remaining_seconds target now / 86400\<rfloor> = n"
      using fresh assms(4)
      by (auto simp: active_tick_actions[where g=g and cid=cid and s=s, OF t c nm True])
    with w show ?thesis
      unfolding s_def[symmetric] g_def[symmetric] update_loop_def by simp
  next
    case False
    have "of_int n * 86400 > (0::real)"
      using pos by simp
    with False have out: "\<not> of_int n * 86400 \<le> remaining_seconds target now"
      by linarith
    have "actions_of (update_loop_cfg REMINDER_DAYS REMINDER_HOURS s g now env)
            = snd (edit_name g cid name FINISHED_NAME (rename_ok env))"
      using False
      by (simp add: update_loop_cfg_expired[where g=g and cid=cid and s=s, OF t c nm] actions_of_def)
    then show ?thesis
      unfolding s_def[symmetric] g_def[symmetric] update_loop_def
      using out by (auto simp: edit_name_actions)
  qed
qed

theorem day_reminder_fires_on_floor_witness:
  "datetime_sub impact_time (utc 2026 1 18 16 47 0 1) = 172799999999
   \<and> list_all is_tick [GuildChanged one_channel]
   \<and> list_all (\<lambda>e. \<not> observes_day impact_time 1 e) [GuildChanged one_channel]
   \<and> SendMessage 1 (DayReminder 1) True
       \<in> set (actions_of (update_loop (state_of (run [GuildChanged one_channel] (configured, one_channel)))
                (guild_of (run [GuildChanged one_channel] (configured, one_channel)))
                (utc 2026 1 18 16 47 0 1) all_ok))"
proof -
  have r: "datetime_sub impact_time (utc 2026 1 18 16 47 0 1) = 172799999999"
    by code_simp
  have w: "of_int 1 * 86400 \<le> remaining_seconds impact_time (utc 2026 1 18 16 47 0 1)
      \<and> remaining_seconds impact_time (utc 2026 1 18 16 47 0 1) < (of_int 1 + 1) * 86400"
    by code_simp
  have a: "list_all is_tick [GuildChanged one_channel]"
    and b: "TARGET_TIME configured = Some impact_time"
    and c: "COUNTDOWN_CHANNEL_ID configured = Some 1"
    and d: "1 \<in> REMINDER_DAYS" and e: "1 \<notin> sent_day_reminders configured"
    and f: "list_all (\<lambda>e. \<not> observes_day impact_time 1 e) [GuildChanged one_channel]"
    and g: "guild_of (run [GuildChanged one_channel] (configured, one_channel)) 1 \<noteq> None"
    by (simp_all add: configured_def REMINDER_DAYS_def run_Cons step_GuildChanged one_channel_def)
  show ?thesis
    using a f r w day_reminder_fires_on_floor [OF a b c d e f g, where env=all_ok
        and now="utc 2026 1 18 16 47 0 1"]
    by (simp add: all_ok_def)
qed


section \<open>Renaming the channel\<close>

lemma tick_rename:
  "RenameChannel c n ok \<in> set (actions_of (update_loop_cfg RD RH s g now env)) \<longleftrightarrow>
     (\<exists>target name. TARGET_TIME s = Some target \<and> COUNTDOWN_CHANNEL_ID s = Some c
        \<and> g c = Some name \<and> name \<noteq> n \<and> n = desired_name target now \<and> ok = rename_ok env)"
  by (cases rule: tick_cases[where s=s and g=g and now=now];
      auto simp: actions_of_def update_loop_cfg_idle update_loop_cfg_lookup_failed
        update_loop_cfg_expired update_loop_cfg_active edit_name_actions day_reminders_actions
        hour_reminders_actions desired_name_def)

lemma sends_are_no_renames:
  "filter is_rename (snd (day_reminders RD cid secs ok s)) = []"
  "filter is_rename (snd (hour_reminders RH cid secs ok s)) = []"
  by (simp_all add: day_reminders_def hour_reminders_def Let_def)

lemma tick_renames_once:
  "length (filter is_rename (actions_of (update_loop_cfg RD RH s g now env))) \<le> 1"
proof -
  have e: "length (filter is_rename (snd (edit_name g cid cur new ok))) \<le> Suc 0" for cid cur new ok
    by (simp add: edit_name_def)
  show ?thesis
    by (cases rule: tick_cases[where s=s and g=g and now=now];
        simp add: actions_of_def update_loop_cfg_idle update_loop_cfg_lookup_failed
          update_loop_cfg_expired update_loop_cfg_active sends_are_no_renames e)
qed

lemma after_edit:
  "g cid = Some cur \<Longrightarrow>
     fst (edit_name g cid cur new ok) cid = Some (if cur \<noteq> new \<and> ok then new else cur)"
  by (simp add: edit_name_def)

lemma proj_pair:
  "state_of (s, p) = s" "guild_of (s, p) = fst p" "actions_of (s, p) = snd p"
  by (simp_all add: state_of_def guild_of_def actions_of_def)

lemma second_tick:
  "x \<in> set (actions_of (update_loop_cfg RD RH
         (state_of (update_loop_cfg RD RH s g now e1))
         (guild_of (update_loop_cfg RD RH s g now e1)) now e2)) \<longleftrightarrow>
     (\<exists>target cid name. TARGET_TIME s = Some target \<and> COUNTDOWN_CHANNEL_ID s = Some cid
        \<and> g cid = Some name \<and> name \<noteq> desired_name target now \<and> \<not> rename_ok e1
        \<and> x = RenameChannel cid (desired_name target now) (rename_ok e2))"
proof (cases rule: tick_cases[where s=s and g=g and now=now])
  case idle
  then show ?thesis
    by (auto simp: update_loop_cfg_idle)
next
  case (lookup_failed target cid)
  then show ?thesis
    by (auto simp: update_loop_cfg_lookup_failed)
next
  case (expired target cid name)
  define g1 where "g1 = fst (edit_name g cid name FINISHED_NAME (rename_ok e1))"
  define name1 where "name1 = (if name \<noteq> FINISHED_NAME \<and> rename_ok e1 then FINISHED_NAME else name)"
  have first: "state_of (update_loop_cfg RD RH s g now e1) = s"
    "guild_of (update_loop_cfg RD RH s g now e1) = g1"
    by (simp_all add: update_loop_cfg_expired[where g=g and cid=cid and s=s, OF expired] g1_def
        state_of_def guild_of_def)
  have nm1: "g1 cid = Some name1"
    unfolding g1_def name1_def using expired(3) by (simp add: after_edit)
  have "x \<in> set (actions_of (update_loop_cfg RD RH s g1 now e2)) \<longleftrightarrow>
      x = RenameChannel cid FINISHED_NAME (rename_ok e2) \<and> name1 \<noteq> FINISHED_NAME"
    by (simp add: update_loop_cfg_expired[where g=g1 and cid=cid and s=s, OF expired(1,2) nm1 expired(4)]
        edit_name_actions proj_pair)
  then show ?thesis
    using expired by (auto simp: first name1_def desired_name_def)
next
  case (active target cid name)
  define new where "new = countdown_name (datetime_sub target now)"
  define secs where "secs = remaining_seconds target now"
  define g1 where "g1 = fst (edit_name g cid name new (rename_ok e1))"
  define name1 where "name1 = (if name \<noteq> new \<and> rename_ok e1 then new else name)"
  define s1 where "s1 = fst (hour_reminders RH cid secs (hour_send_ok e1)
                         (fst (day_reminders RD cid secs (day_send_ok e1) s)))"
  have first: "state_of (update_loop_cfg RD RH s g now e1) = s1"
    "guild_of (update_loop_cfg RD RH s g now e1) = g1"
    by (simp_all add: update_loop_cfg_active[where g=g and cid=cid and s=s, OF active]
        g1_def s1_def new_def secs_def state_of_def guild_of_def)
  have nm1: "g1 cid = Some name1"
    unfolding g1_def name1_def using active(3) by (simp add: after_edit)
  have cfg: "TARGET_TIME s1 = Some target" "COUNTDOWN_CHANNEL_ID s1 = Some cid"
    using active(1,2) by (simp_all add: s1_def hour_reminders_state day_reminders_state)
  have day: "\<lfloor>secs / 86400\<rfloor> \<in> RD \<Longrightarrow> \<lfloor>secs / 86400\<rfloor> \<in> sent_day_reminders s1"
    by (simp add: s1_def hour_reminders_state day_reminders_state)
  have hour: "secs < 172800 \<Longrightarrow> py_round (secs / 3600) \<in> RH
      \<Longrightarrow> py_round (secs / 3600) \<in> sent_hour_reminders s1"
    by (simp add: s1_def hour_reminders_state day_reminders_state)
  have "x \<in> set (actions_of (update_loop_cfg RD RH s1 g1 now e2)) \<longleftrightarrow>
      x = RenameChannel cid new (rename_ok e2) \<and> name1 \<noteq> new"
    using day hour
    by (auto simp: active_tick_actions[where g=g1 and cid=cid and s=s1, OF cfg nm1 active(4)]
        new_def[symmetric] secs_def[symmetric])
  then show ?thesis
    using active by (auto simp: first name1_def desired_name_def new_def)
qed

text \<open>
  C7, as the code has it. A tick renames the channel only when its current name differs
  from the desired name, and at most once. When the step runs twice in succession at the
  same time, the second run sends no reminder, and it issues a rename only when the first
  run's rename attempt failed: after a rename that succeeded the second run does nothing.
\<close>

theorem rename_only_when_name_differs:
  "(\<forall>cid n ok. RenameChannel cid n ok \<in> set (actions_of (update_loop s g now e1)) \<longrightarrow>
       (\<exists>target. TARGET_TIME s = Some target \<and> n = desired_name target now)
       \<and> g cid \<noteq> Some n \<and> ok = rename_ok e1)
   \<and> length (filter is_rename (actions_of (update_loop s g now e1))) \<le> 1
   \<and> (\<forall>a\<in>set (actions_of (update_loop (state_of (update_loop s g now e1))
                   (guild_of (update_loop s g now e1)) now e2)).
         \<not> is_send a \<and> \<not> rename_ok e1
         \<and> (\<exists>b\<in>set (actions_of (update_loop s g now e1)). is_rename b))
   \<and> (rename_ok e1 \<longrightarrow>
         actions_of (update_loop (state_of (update_loop s g now e1))
           (guild_of (update_loop s g now e1)) now e2) = [])"
proof -
  let ?r1 = "update_loop s g now e1"
  let ?r2 = "update_loop (state_of ?r1) (guild_of ?r1) now e2"
  have one: "\<forall>cid n ok. RenameChannel cid n ok \<in> set (actions_of ?r1) \<longrightarrow>
       (\<exists>target. TARGET_TIME s = Some target \<and> n = desired_name target now)
       \<and> g cid \<noteq> Some n \<and> ok = rename_ok e1"
    by (auto simp: update_loop_def tick_rename)
  have two: "length (filter is_rename (actions_of ?r1)) \<le> 1"
    unfolding update_loop_def by (rule tick_renames_once)
  have three: "\<not> is_send a \<and> \<not> rename_ok e1 \<and> (\<exists>b\<in>set (actions_of ?r1). is_rename b)"
    if "a \<in> set (actions_of ?r2)" for a
  proof -
    from that obtain target cid name where f: "TARGET_TIME s = Some target"
        "COUNTDOWN_CHANNEL_ID s = Some cid" "g cid = Some name"
        "name \<noteq> desired_name target now" "\<not> rename_ok e1"
        "a = RenameChannel cid (desired_name target now) (rename_ok e2)"
      unfolding update_loop_def second_tick by blast
    then have "RenameChannel cid (desired_name target now) (rename_ok e1) \<in> set (actions_of ?r1)"
      by (simp add: update_loop_def tick_rename)
    then have "\<exists>b\<in>set (actions_of ?r1). is_rename b"
      by (rule bexI[rotated]) simp
    with f show ?thesis by simp
  qed
  have four: "actions_of ?r2 = []" if "rename_ok e1"
  proof (cases "actions_of ?r2")
    case Nil
    then show ?thesis .
  next
    case (Cons a as)
    then have "a \<in> set (actions_of ?r2)" by simp
    from three[OF this] that show ?thesis by simp
  qed
  from one two three four show ?thesis by blast
qed

theorem rename_only_when_name_differs_witness:
  "RenameChannel 1 FINISHED_NAME True
      \<in> set (actions_of (update_loop configured one_channel (utc 2026 1 20 16 47 0 0) all_ok))
   \<and> one_channel 1 \<noteq> Some FINISHED_NAME
   \<and> actions_of (update_loop
        (state_of (update_loop configured one_channel (utc 2026 1 20 16 47 0 0) all_ok))
        (guild_of (update_loop configured one_channel (utc 2026 1 20 16 47 0 0) all_ok))
        (utc 2026 1 20 16 47 0 0) all_ok) = []"
proof -
  have r: "remaining_seconds impact_time (utc 2026 1 20 16 47 0 0) = 0"
    by code_simp
  have n: "''meteor-impact'' \<noteq> FINISHED_NAME"
    by (simp add: FINISHED_NAME_def METEOR_ICON_def)
  have "RenameChannel 1 FINISHED_NAME True
      \<in> set (actions_of (update_loop configured one_channel (utc 2026 1 20 16 47 0 0) all_ok))"
    unfolding update_loop_def tick_rename
    using n by (simp add: configured_def one_channel_def desired_name_def r all_ok_def)
  then show ?thesis
    using rename_only_when_name_differs [of configured one_channel "utc 2026 1 20 16 47 0 0" all_ok all_ok]
    by (simp add: all_ok_def)
qed

text \<open>
  C7 as it is worded fails: when the rename is rejected, the second of two ticks at the
  same time, with the same fired-sets, issues it again, which makes two renames.
\<close>

theorem rename_twice_counterexample:
  "actions_of (run [Tick (utc 2026 1 20 16 47 0 0) all_fail, Tick (utc 2026 1 20 16 47 0 0) all_fail]
      (configured, one_channel))
     = [RenameChannel 1 FINISHED_NAME False, RenameChannel 1 FINISHED_NAME False]
   \<and> state_of (run [Tick (utc 2026 1 20 16 47 0 0) all_fail] (configured, one_channel)) = configured"
proof -
  have r: "remaining_seconds impact_time (utc 2026 1 20 16 47 0 0) = 0"
    by code_simp
  have n: "''meteor-impact'' \<noteq> FINISHED_NAME"
    by (simp add: FINISHED_NAME_def METEOR_ICON_def)
  have t: "update_loop configured one_channel (utc 2026 1 20 16 47 0 0) all_fail
      = (configured, one_channel, [RenameChannel 1 FINISHED_NAME False])"
    unfolding update_loop_def
    by (subst update_loop_cfg_expired[where target=impact_time and cid=1 and name="''meteor-impact''"])
       (simp_all add: configured_def one_channel_def r edit_name_def all_fail_def n)
  show ?thesis
    by (simp add: run_Cons t)
qed


section \<open>Parsing\<close>

lemma days_in_month_le:
  assumes "1 \<le> mo" and "mo \<le> 12"
  shows "days_in_month y mo \<le> 31"
proof -
  from assms have "mo = 1 \<or> mo = 2 \<or> mo = 3 \<or> mo = 4 \<or> mo = 5 \<or> mo = 6 \<or> mo = 7
      \<or> mo = 8 \<or> mo = 9 \<or> mo = 10 \<or> mo = 11 \<or> mo = 12"
    by arith
  then show ?thesis
    by (auto simp: days_in_month_def)
qed

lemma py_datetime_Inr:
  "py_datetime y mo d h mi = Inr dt \<longleftrightarrow>
     1 \<le> y \<and> y \<le> 9999 \<and> 1 \<le> mo \<and> mo \<le> 12 \<and> 1 \<le> d \<and> d \<le> days_in_month y mo
       \<and> 0 \<le> h \<and> h \<le> 23 \<and> 0 \<le> mi \<and> mi \<le> 59 \<and> dt = utc y mo d h mi 0 0"
proof (cases "1 \<le> mo \<and> mo \<le> 12")
  case True
  then have "days_in_month y mo \<le> 31"
    by (simp add: days_in_month_le)
  then show ?thesis
    by (auto simp: py_datetime_def in_c_int_def utc_def)
next
  case False
  then show ?thesis
    by (auto simp: py_datetime_def)
qed

lemma parse_datetime_utc_Inr:
  "parse_datetime_utc db date_str time_str = Inr dt \<longleftrightarrow>
     (\<exists>y mo d h mi. map (py_int db) (split_on (ord CHR ''-'') date_str) = [Inr y, Inr mo, Inr d]
        \<and> map (py_int db) (split_on (ord CHR '':'') time_str) = [Inr h, Inr mi]
        \<and> py_datetime y mo d h mi = Inr dt)"
  unfolding parse_datetime_utc_def
  by (auto split: list.splits sum.splits)

text \<open>
  C10, as the code has it. The parser returns a timestamp exactly when the date splits on
  \<open>-\<close> into three integer fields, the time splits on \<open>:\<close> into two integer fields, and
  the five integers are a calendar date and a time of day; the timestamp then has these
  fields, zero seconds and microseconds, and is UTC. Otherwise it raises.
\<close>

theorem parse_accepts_valid_fields:
  "(parse_datetime_utc db date_str time_str = Inr dt \<longleftrightarrow>
     (\<exists>y mo d h mi. map (py_int db) (split_on (ord CHR ''-'') date_str) = [Inr y, Inr mo, Inr d]
        \<and> map (py_int db) (split_on (ord CHR '':'') time_str) = [Inr h, Inr mi]
        \<and> 1 \<le> y \<and> y \<le> 9999 \<and> 1 \<le> mo \<and> mo \<le> 12 \<and> 1 \<le> d \<and> d \<le> days_in_month y mo
        \<and> 0 \<le> h \<and> h \<le> 23 \<and> 0 \<le> mi \<and> mi \<le> 59
        \<and> dt = utc y mo d h mi 0 0))
   \<and> (parse_datetime_utc db date_str time_str = Inr dt \<longrightarrow>
        dt_second dt = 0 \<and> dt_microsecond dt = 0 \<and> dt_tzinfo dt = Some UTC)
   \<and> ((\<forall>dt'. parse_datetime_utc db date_str time_str \<noteq> Inr dt') \<longrightarrow>
        (\<exists>e. parse_datetime_utc db date_str time_str = Inl e))"
proof -
  have a: "parse_datetime_utc db date_str time_str = Inr dt \<longleftrightarrow>
     (\<exists>y mo d h mi. map (py_int db) (split_on (ord CHR ''-'') date_str) = [Inr y, Inr mo, Inr d]
        \<and> map (py_int db) (split_on (ord CHR '':'') time_str) = [Inr h, Inr mi]
        \<and> 1 \<le> y \<and> y \<le> 9999 \<and> 1 \<le> mo \<and> mo \<le> 12 \<and> 1 \<le> d \<and> d \<le> days_in_month y mo
        \<and> 0 \<le> h \<and> h \<le> 23 \<and> 0 \<le> mi \<and> mi \<le> 59
        \<and> dt = utc y mo d h mi 0 0)"
    unfolding parse_datetime_utc_Inr py_datetime_Inr by simp
  have b: "dt_second dt = 0 \<and> dt_microsecond dt = 0 \<and> dt_tzinfo dt = Some UTC"
    if "parse_datetime_utc db date_str time_str = Inr dt"
    using that unfolding a by (auto simp: utc_def)
  have c: "\<exists>e. parse_datetime_utc db date_str time_str = Inl e"
    if "\<forall>dt'. parse_datetime_utc db date_str time_str \<noteq> Inr dt'"
    using that by (cases "parse_datetime_utc db date_str time_str") auto
  from a b c show ?thesis by blast
qed

theorem parse_accepts_valid_fields_witness:
  "parse_datetime_utc some_unicode (py_str ''2025-12-31'') (py_str ''23:59'')
     = Inr (utc 2025 12 31 23 59 0 0)
   \<and> parse_datetime_utc some_unicode (py_str ''2025-12-31'') (py_str ''23:59:30'')
       \<noteq> Inr (utc 2025 12 31 23 59 30 0)
   \<and> parse_datetime_utc some_unicode (py_str ''2025-12-31'') (py_str ''23:59:30'')
       \<noteq> Inr (utc 2025 12 31 23 59 0 0)
   \<and> parse_datetime_utc some_unicode ([0xFF12, 0xFF10, 0xFF12, 0xFF15] @ py_str ''-12-31'')
        (py_str ''23:59'') = Inr (utc 2025 12 31 23 59 0 0)"
proof -
  have d: "map (py_int some_unicode) (split_on (ord CHR ''-'') (py_str ''2025-12-31''))
      = [Inr 2025, Inr 12, Inr 31]"
    by code_simp
  have d': "map (py_int some_unicode)
        (split_on (ord CHR ''-'') ([0xFF12, 0xFF10, 0xFF12, 0xFF15] @ py_str ''-12-31''))
      = [Inr 2025, Inr 12, Inr 31]"
    by code_simp
  have t: "map (py_int some_unicode) (split_on (ord CHR '':'') (py_str ''23:59''))
      = [Inr 23, Inr 59]"
    by code_simp
  have t3: "map (py_int some_unicode) (split_on (ord CHR '':'') (py_str ''23:59:30''))
      = [Inr 23, Inr 59, Inr 30]"
    by code_simp
  have m: "days_in_month 2025 12 = 31"
    by (simp add: days_in_month_def)
  show ?thesis
    using
      parse_accepts_valid_fields [of some_unicode "py_str ''2025-12-31''" "py_str ''23:59''"
        "utc 2025 12 31 23 59 0 0"]
      parse_accepts_valid_fields [of some_unicode "py_str ''2025-12-31''" "py_str ''23:59:30''"
        "utc 2025 12 31 23 59 30 0"]
      parse_accepts_valid_fields [of some_unicode "py_str ''2025-12-31''" "py_str ''23:59:30''"
        "utc 2025 12 31 23 59 0 0"]
      parse_accepts_valid_fields [of some_unicode
        "[0xFF12, 0xFF10, 0xFF12, 0xFF15] @ py_str ''-12-31''" "py_str ''23:59''"
        "utc 2025 12 31 23 59 0 0"]
    unfolding d d' t t3 by (simp add: m)
qed

text \<open>
  C10 as it is worded fails: three integer date fields and two integer time fields are
  not enough, the date below has them and is rejected.
\<close>

theorem parse_rejects_integer_fields_counterexample:
  "map (py_int some_unicode) (split_on (ord CHR ''-'') (py_str ''2025-13-40''))
     = [Inr 2025, Inr 13, Inr 40]
   \<and> map (py_int some_unicode) (split_on (ord CHR '':'') (py_str ''10:00'')) = [Inr 10, Inr 0]
   \<and> parse_datetime_utc some_unicode (py_str ''2025-13-40'') (py_str ''10:00'') = Inl ValueError"
  by code_simp

section \<open>Configuring and deconfiguring\<close>

text \<open>
  C6. When the date and time do not parse, the configuration command answers with the
  usage hint (or is refused by the permission check) and changes nothing: the state and
  the guild are as before and no channel call is made.
\<close>

theorem invalid_input_changes_nothing:
  assumes "parse_datetime_utc (ucd env) date time = Inl e"
  shows "create_meteor env date time name_arg s g
           = (if manage_channels env then InvalidFormat else MissingPermissions, s, g, [])"
  using assms by (simp add: create_meteor_def)

theorem invalid_input_changes_nothing_witness:
  "parse_datetime_utc (ucd admin) (py_str ''2025-13-40'') (py_str ''10:00'') = Inl ValueError
   \<and> create_meteor admin (py_str ''2025-13-40'') (py_str ''10:00'') None configured one_channel
       = (InvalidFormat, configured, one_channel, [])"
proof -
  have p: "parse_datetime_utc (ucd admin) (py_str ''2025-13-40'') (py_str ''10:00'') = Inl ValueError"
    by code_simp
  show ?thesis
    using p invalid_input_changes_nothing [OF p, where name_arg=None and s=configured
        and g=one_channel]
    by (simp add: admin_def)
qed


lemma create_meteor_Created:
  assumes "fst (create_meteor env date time name_arg s g) = Created cid dt"
  shows "\<exists>g1 a1 nm. create_meteor env date time name_arg s g =
           (Created cid dt,
            s\<lparr>COUNTDOWN_CHANNEL_ID := Some cid, TARGET_TIME := Some dt,
              sent_day_reminders := {}, sent_hour_reminders := {}\<rparr>,
            g1(cid \<mapsto> nm), a1)"
  using assms
  by (auto simp: create_meteor_def Let_def split_beta split: if_splits sum.splits option.splits)

lemma create_meteor_state:
  "fst (snd (create_meteor env date time name_arg s g)) = s
   \<or> (\<exists>cid dt. fst (snd (create_meteor env date time name_arg s g)) =
         s\<lparr>COUNTDOWN_CHANNEL_ID := Some cid, TARGET_TIME := Some dt,
           sent_day_reminders := {}, sent_hour_reminders := {}\<rparr>)"
  by (auto simp: create_meteor_def Let_def split_beta split: if_splits sum.splits option.splits)

lemma delete_meteor_state:
  "fst (snd (delete_meteor env s g)) =
     (if manage_channels env \<and> \<not> (COUNTDOWN_CHANNEL_ID s = None \<and> TARGET_TIME s = None)
      then s\<lparr>COUNTDOWN_CHANNEL_ID := None, TARGET_TIME := None,
             sent_day_reminders := {}, sent_hour_reminders := {}\<rparr>
      else s)"
  by (simp add: delete_meteor_def Let_def split_beta)

lemma delete_meteor_outcome:
  "fst (delete_meteor env s g) = Deleted nm \<Longrightarrow>
     manage_channels env \<and> \<not> (COUNTDOWN_CHANNEL_ID s = None \<and> TARGET_TIME s = None)"
  by (auto simp: delete_meteor_def Let_def split_beta split: if_splits)

lemma step_keeps_clean:
  assumes "unconfigured_is_clean s"
  shows "unconfigured_is_clean (state_of (step e (s, g)))"
proof (cases e)
  case (Tick now env)
  show ?thesis
  proof (cases "COUNTDOWN_CHANNEL_ID s")
    case None
    then show ?thesis
      using assms Tick by (simp add: update_loop_def update_loop_cfg_idle)
  next
    case (Some cid)
    then show ?thesis
      using assms Tick tick_keeps_config[of REMINDER_DAYS REMINDER_HOURS s g now env]
      by (simp add: update_loop_def unconfigured_is_clean_def)
  qed
next
  case (CreateMeteor env date time name_arg)
  then show ?thesis
    using assms create_meteor_state[of env date time name_arg s g]
    by (auto simp: state_of_def unconfigured_is_clean_def)
next
  case (DeleteMeteor env)
  then show ?thesis
    using assms by (simp add: state_of_def delete_meteor_state unconfigured_is_clean_def)
next
  case (GuildChanged g')
  then show ?thesis
    using assms by (simp add: step_GuildChanged)
qed

lemma run_keeps_clean:
  "unconfigured_is_clean s \<Longrightarrow> unconfigured_is_clean (state_of (run es (s, g)))"
proof (induction es arbitrary: s g)
  case Nil
  then show ?case by simp
next
  case (Cons e es)
  show ?case
    unfolding run_Cons by (rule Cons.IH) (rule step_keeps_clean[OF Cons.prems])
qed

lemma initial_clean: "unconfigured_is_clean initial_state"
  by (simp add: unconfigured_is_clean_def initial_state_def)

text \<open>
  C5. A configuration that succeeds leaves both fired-sets empty, so the next tick that
  lands on a configured day or hour threshold sends its reminder whatever was marked
  before. A deconfiguration that finds an event empties both sets; and in every state the
  bot can reach, both sets are empty after a permitted deconfiguration command.
\<close>

theorem reconfiguration_clears_markers:
  "(fst (create_meteor env date time name_arg s g) = Created cid dt \<longrightarrow>
      sent_day_reminders (state_of (step (CreateMeteor env date time name_arg) (s, g))) = {}
      \<and> sent_hour_reminders (state_of (step (CreateMeteor env date time name_arg) (s, g))) = {}
      \<and> (\<forall>n now tenv. n \<in> REMINDER_DAYS \<and> \<lfloor>remaining_seconds dt now / 86400\<rfloor> = n \<longrightarrow>
            SendMessage cid (DayReminder n) (day_send_ok tenv) \<in> set (actions_of
              (update_loop (state_of (step (CreateMeteor env date time name_arg) (s, g)))
                 (guild_of (step (CreateMeteor env date time name_arg) (s, g))) now tenv)))
      \<and> (\<forall>h now tenv. h \<in> REMINDER_HOURS \<and> 0 < remaining_seconds dt now
            \<and> remaining_seconds dt now < 172800 \<and> py_round (remaining_seconds dt now / 3600) = h \<longrightarrow>
            SendMessage cid (HourReminder h) (hour_send_ok tenv) \<in> set (actions_of
              (update_loop (state_of (step (CreateMeteor env date time name_arg) (s, g)))
                 (guild_of (step (CreateMeteor env date time name_arg) (s, g))) now tenv))))
   \<and> (fst (delete_meteor env s g) = Deleted nm \<longrightarrow>
      sent_day_reminders (state_of (step (DeleteMeteor env) (s, g))) = {}
      \<and> sent_hour_reminders (state_of (step (DeleteMeteor env) (s, g))) = {})
   \<and> (manage_channels env \<and> s = state_of (run es (initial_state, g0)) \<longrightarrow>
      sent_day_reminders (state_of (step (DeleteMeteor env) (s, g))) = {}
      \<and> sent_hour_reminders (state_of (step (DeleteMeteor env) (s, g))) = {})"
proof -
  let ?c = "step (CreateMeteor env date time name_arg) (s, g)"
  have create: "sent_day_reminders (state_of ?c) = {} \<and> sent_hour_reminders (state_of ?c) = {}
      \<and> (\<forall>n now tenv. n \<in> REMINDER_DAYS \<and> \<lfloor>remaining_seconds dt now / 86400\<rfloor> = n \<longrightarrow>
            SendMessage cid (DayReminder n) (day_send_ok tenv)
              \<in> set (actions_of (update_loop (state_of ?c) (guild_of ?c) now tenv)))
      \<and> (\<forall>h now tenv. h \<in> REMINDER_HOURS \<and> 0 < remaining_seconds dt now
            \<and> remaining_seconds dt now < 172800 \<and> py_round (remaining_seconds dt now / 3600) = h \<longrightarrow>
            SendMessage cid (HourReminder h) (hour_send_ok tenv)
              \<in> set (actions_of (update_loop (state_of ?c) (guild_of ?c) now tenv)))"
    if ok: "fst (create_meteor env date time name_arg s g) = Created cid dt"
  proof -
    from create_meteor_Created[OF ok] obtain g1 a1 nm where
      eq: "create_meteor env date time name_arg s g =
           (Created cid dt,
            s\<lparr>COUNTDOWN_CHANNEL_ID := Some cid, TARGET_TIME := Some dt,
              sent_day_reminders := {}, sent_hour_reminders := {}\<rparr>,
            g1(cid \<mapsto> nm), a1)"
      by blast
    define s' where "s' = s\<lparr>COUNTDOWN_CHANNEL_ID := Some cid, TARGET_TIME := Some dt,
              sent_day_reminders := {}, sent_hour_reminders := {}\<rparr>"
    define g' where "g' = g1(cid \<mapsto> nm)"
    have st: "state_of ?c = s'" "guild_of ?c = g'"
      by (simp_all add: eq s'_def g'_def)
    have cfg: "TARGET_TIME s' = Some dt" "COUNTDOWN_CHANNEL_ID s' = Some cid" "g' cid = Some nm"
      and empty: "sent_day_reminders s' = {}" "sent_hour_reminders s' = {}"
      by (simp_all add: s'_def g'_def)
    have day: "SendMessage cid (DayReminder n) (day_send_ok tenv)
              \<in> set (actions_of (update_loop s' g' now tenv))"
      if "n \<in> REMINDER_DAYS" "\<lfloor>remaining_seconds dt now / 86400\<rfloor> = n" for n now tenv
    proof -
      from that(1) have "1 \<le> n" by (auto simp: REMINDER_DAYS_def)
      with that(2) have "1 \<le> \<lfloor>remaining_seconds dt now / 86400\<rfloor>" by simp
      then have "1 \<le> remaining_seconds dt now / 86400" by linarith
      then have pos: "0 < remaining_seconds dt now" by simp
      show ?thesis
        unfolding update_loop_def
        using that
        by (simp add: active_tick_actions[where g=g' and cid=cid and s=s', OF cfg pos] empty)
    qed
    have hour: "SendMessage cid (HourReminder h) (hour_send_ok tenv)
              \<in> set (actions_of (update_loop s' g' now tenv))"
      if "h \<in> REMINDER_HOURS" "0 < remaining_seconds dt now" "remaining_seconds dt now < 172800"
        "py_round (remaining_seconds dt now / 3600) = h" for h now tenv
      unfolding update_loop_def
      using that
      by (simp add: active_tick_actions[where g=g' and cid=cid and s=s', OF cfg that(2)] empty)
    from day hour empty show ?thesis
      unfolding st by blast
  qed
  have delete: "sent_day_reminders (state_of (step (DeleteMeteor env) (s, g))) = {}
      \<and> sent_hour_reminders (state_of (step (DeleteMeteor env) (s, g))) = {}"
    if "fst (delete_meteor env s g) = Deleted nm"
    using delete_meteor_outcome[OF that] by (auto simp: state_of_def delete_meteor_state)
  have reach: "sent_day_reminders (state_of (step (DeleteMeteor env) (s, g))) = {}
      \<and> sent_hour_reminders (state_of (step (DeleteMeteor env) (s, g))) = {}"
    if "manage_channels env" "s = state_of (run es (initial_state, g0))"
  proof -
    have "unconfigured_is_clean s"
      unfolding that(2) by (rule run_keeps_clean[OF initial_clean])
    then show ?thesis
      using that(1) by (auto simp: state_of_def delete_meteor_state unconfigured_is_clean_def)
  qed
  from create delete reach show ?thesis by blast
qed

theorem reconfiguration_clears_markers_witness:
  "fst (create_meteor admin (py_str ''2026-02-01'') (py_str ''12:00'') None
          (configured\<lparr>sent_day_reminders := {1}, sent_hour_reminders := {24}\<rparr>) one_channel)
     = Created 2 (utc 2026 2 1 12 0 0 0)
   \<and> sent_day_reminders (state_of (step (CreateMeteor admin (py_str ''2026-02-01'') (py_str ''12:00'') None)
        (configured\<lparr>sent_day_reminders := {1}, sent_hour_reminders := {24}\<rparr>, one_channel))) = {}
   \<and> sent_hour_reminders (state_of (step (CreateMeteor admin (py_str ''2026-02-01'') (py_str ''12:00'') None)
        (configured\<lparr>sent_day_reminders := {1}, sent_hour_reminders := {24}\<rparr>, one_channel))) = {}
   \<and> fst (delete_meteor admin (configured\<lparr>sent_day_reminders := {1}, sent_hour_reminders := {24}\<rparr>)
        one_channel) = Deleted (Some ''meteor-impact'')
   \<and> sent_day_reminders (state_of (step (DeleteMeteor admin)
        (configured\<lparr>sent_day_reminders := {1}, sent_hour_reminders := {24}\<rparr>, one_channel))) = {}
   \<and> sent_hour_reminders (state_of (step (DeleteMeteor admin)
        (configured\<lparr>sent_day_reminders := {1}, sent_hour_reminders := {24}\<rparr>, one_channel))) = {}"
proof -
  have p: "parse_datetime_utc some_unicode (py_str ''2026-02-01'') (py_str ''12:00'')
      = Inr (utc 2026 2 1 12 0 0 0)"
    by code_simp
  have c: "fst (create_meteor admin (py_str ''2026-02-01'') (py_str ''12:00'') None
          (configured\<lparr>sent_day_reminders := {1}, sent_hour_reminders := {24}\<rparr>) one_channel)
     = Created 2 (utc 2026 2 1 12 0 0 0)"
    by (simp add: create_meteor_def p admin_def configured_def one_channel_def delete_channel_def
        Let_def)
  have d: "fst (delete_meteor admin (configured\<lparr>sent_day_reminders := {1}, sent_hour_reminders := {24}\<rparr>)
        one_channel) = Deleted (Some ''meteor-impact'')"
    by (simp add: delete_meteor_def admin_def configured_def one_channel_def delete_channel_def
        Let_def)
  show ?thesis
    using c d
      reconfiguration_clears_markers [where env=admin and date="py_str ''2026-02-01''"
        and time="py_str ''12:00''"
        and name_arg=None and s="configured\<lparr>sent_day_reminders := {1}, sent_hour_reminders := {24}\<rparr>"
        and g=one_channel and cid=2 and dt="utc 2026 2 1 12 0 0 0" and nm="Some ''meteor-impact''"]
    by simp
qed


end
